theory Spec2Isabelle
  imports Main "HOL-Library.Sublist"
begin

section \<open>Strings as the components use them\<close>

text \<open>
  A string is a list of 8-bit characters. The whitespace that \<^verbatim>\<open>String.prototype.trim\<close>
  strips is, in that range: TAB, LF, VT, FF, CR, SPACE and NBSP.
\<close>

definition is_ws :: "char \<Rightarrow> bool" where
  "is_ws c = (c \<in> set [CHR 0x09, CHR 0x0A, CHR 0x0B, CHR 0x0C, CHR 0x0D, CHR 0x20, CHR 0xA0])"

text \<open>\<^verbatim>\<open>s.trim()\<close>\<close>

definition trim :: "string \<Rightarrow> string" where
  "trim s = rev (dropWhile is_ws (rev (dropWhile is_ws s)))"

text \<open>\<^verbatim>\<open>s.endsWith(t)\<close>\<close>

definition endsWith :: "string \<Rightarrow> string \<Rightarrow> bool" where
  "endsWith s t = suffix t s"

text \<open>
  \<^verbatim>\<open>s.split(sep)\<close> for a non-empty separator: the string is scanned from the left, every
  leftmost occurrence of the separator closes the current piece, and the scan goes on
  behind the occurrence. The empty string splits into one empty piece.
\<close>

function split_aux :: "string \<Rightarrow> string \<Rightarrow> string \<Rightarrow> string list" where
  "split_aux sep cur [] = [rev cur]"
| "split_aux sep cur (c # cs) =
     (if prefix sep (c # cs)
      then rev cur # split_aux sep [] (drop (length sep - 1) cs)
      else split_aux sep (c # cur) cs)"
  by pat_completeness auto
termination
  by (relation "measure (\<lambda>(sep, cur, s). length s)") auto

definition split :: "string \<Rightarrow> string \<Rightarrow> string list" where
  "split sep s = split_aux sep [] s"

text \<open>\<^verbatim>\<open>xs.join(sep)\<close> on an array of strings.\<close>

fun join :: "string \<Rightarrow> string list \<Rightarrow> string" where
  "join sep [] = []"
| "join sep [x] = x"
| "join sep (x # y # ys) = x @ sep @ join sep (y # ys)"

definition delim :: string where
  "delim = ''###''"

definition nl :: string where
  "nl = [CHR 0x0A]"

section \<open>The finding model\<close>

record parsed_finding =
  isStructured :: bool
  title :: string
  points :: "string list"

text \<open>\<^verbatim>\<open>parseStructuredFinding\<close> (the same function in ResultsDisplay and BatchProcessor).\<close>

definition parseStructuredFinding :: "string \<Rightarrow> parsed_finding" where
  "parseStructuredFinding finding =
     (let parts = split delim finding in
      if length parts > 1 \<and> trim (hd parts) \<noteq> []
      then \<lparr>isStructured = True, title = hd parts,
            points = filter (\<lambda>p. trim p \<noteq> []) (tl parts)\<rparr>
      else \<lparr>isStructured = False, title = finding, points = []\<rparr>)"

text \<open>
  The re-encoding of \<^verbatim>\<open>handleSaveEdit\<close>: blank segments are dropped and the rest is joined
  with the delimiter.
\<close>

definition encodeSegments :: "string list \<Rightarrow> string" where
  "encodeSegments segs = join delim (filter (\<lambda>line. trim line \<noteq> []) segs)"

text \<open>The text \<^verbatim>\<open>handleSaveEdit\<close> passes to the update callback.\<close>

definition savedText :: "string \<Rightarrow> string \<Rightarrow> string" where
  "savedText originalFinding editingText =
     (if isStructured (parseStructuredFinding originalFinding)
      then encodeSegments (split nl editingText)
      else editingText)"


section \<open>Audio artifacts, exceptions and the external clients\<close>

text \<open>
  A \<^verbatim>\<open>Blob\<close> is its bytes and its content-type label; a byte is a character, as in the
  binary strings of \<^verbatim>\<open>atob\<close>.
\<close>

record blob =
  blob_bytes :: string
  blob_type :: string

definition blob_size :: "blob \<Rightarrow> nat" where
  "blob_size b = length (blob_bytes b)"

text \<open>
  The label that the \<^verbatim>\<open>Blob\<close> constructor of the platform gives a blob for the \<^verbatim>\<open>type\<close>
  option: the empty string if the option holds a character outside U+0020 to U+007E,
  and the option in ASCII lower case otherwise.
\<close>

definition asciiLower :: "char \<Rightarrow> char" where
  "asciiLower c =
     (case map_of (zip ''ABCDEFGHIJKLMNOPQRSTUVWXYZ'' ''abcdefghijklmnopqrstuvwxyz'') c of
        None \<Rightarrow> c
      | Some l \<Rightarrow> l)"

definition blobType :: "string \<Rightarrow> string" where
  "blobType t =
     (if list_all (\<lambda>c. 32 \<le> (of_char c :: nat) \<and> (of_char c :: nat) \<le> 126) t
      then map asciiLower t else [])"

text \<open>\<^verbatim>\<open>new Blob([bytes], {type})\<close> on a byte array.\<close>

definition blobOf :: "string \<Rightarrow> string \<Rightarrow> blob" where
  "blobOf bs t = \<lparr>blob_bytes = bs, blob_type = blobType t\<rparr>"

text \<open>\<^verbatim>\<open>new Blob(parts, {type})\<close> on blobs: the bytes of the parts, one after the other.\<close>

definition new_Blob :: "blob list \<Rightarrow> string \<Rightarrow> blob" where
  "new_Blob parts t = blobOf (concat (map blob_bytes parts)) t"

definition startsWith :: "string \<Rightarrow> string \<Rightarrow> bool" where
  "startsWith s t = prefix t s"

definition getCleanMimeType :: "blob \<Rightarrow> string" where
  "getCleanMimeType b =
     (let mimeType = blob_type b in
      if mimeType = [] then ''audio/ogg''
      else if startsWith mimeType ''audio/webm'' \<or> startsWith mimeType ''video/webm''
      then ''audio/webm''
      else hd (split '';'' mimeType))"

text \<open>
  A thrown value is an \<^verbatim>\<open>Error\<close> with its message, or something that is not an instance
  of \<^verbatim>\<open>Error\<close>. \<^verbatim>\<open>err instanceof Error ? err.message : fallback\<close> is \<open>message_or\<close>.
\<close>

datatype js_exn = JsError string | Thrown

definition message_or :: "js_exn \<Rightarrow> string \<Rightarrow> string" where
  "message_or e fallback = (case e of JsError m \<Rightarrow> m | Thrown \<Rightarrow> fallback)"

text \<open>The \<^verbatim>\<open>TypeError\<close> of calling a method on \<^verbatim>\<open>undefined\<close>.\<close>

definition undefinedRead :: "string \<Rightarrow> js_exn" where
  "undefinedRead m = JsError (''Cannot read properties of undefined (reading '' @ [CHR 0x27] @ m @ [CHR 0x27] @ '')'')"

text \<open>
  An array of strings as it is at run time: a slot holds a string or is empty
  (\<open>None\<close>, read as \<^verbatim>\<open>undefined\<close>). Reading behind the end gives \<^verbatim>\<open>undefined\<close>;
  writing behind the end extends the array, leaving empty slots in between.
\<close>

type_synonym js_strings = "string option list"

definition js_get :: "js_strings \<Rightarrow> nat \<Rightarrow> string option" where
  "js_get xs i = (if i < length xs then xs ! i else None)"

definition js_set :: "js_strings \<Rightarrow> nat \<Rightarrow> string \<Rightarrow> js_strings" where
  "js_set xs i v =
     (if i < length xs then xs[i := Some v]
      else xs @ replicate (i - length xs) None @ [Some v])"

text \<open>\<^verbatim>\<open>xs.join(sep)\<close> on such an array: an empty slot contributes the empty string.\<close>

definition js_join :: "string \<Rightarrow> js_strings \<Rightarrow> string" where
  "js_join sep xs = join sep (map (\<lambda>x. case x of None \<Rightarrow> [] | Some s \<Rightarrow> s) xs)"

text \<open>
  The chat handle that \<^verbatim>\<open>createChat\<close> returns, as what it was created from: the audio, the
  transcript and the model.
\<close>

datatype chat_session = Chat blob js_strings string

datatype author = You | AI

record chat_message =
  msg_author :: author
  msg_text :: string

text \<open>
  The four clients of \<^verbatim>\<open>geminiService\<close> call the hosted model; what they return or throw is
  not determined by the program, so each is a parameter of the handlers: \<open>Inl\<close> is the
  exception thrown, \<open>Inr\<close> the value returned.
\<close>

record clients =
  processAudio :: "blob \<Rightarrow> string \<Rightarrow> js_exn + string list"
  createChat :: "blob \<Rightarrow> js_strings \<Rightarrow> string \<Rightarrow> js_exn + chat_session"
  continueAudioDictation :: "string option \<Rightarrow> blob \<Rightarrow> js_exn + string"
  modifyFindingWithAudio :: "string option \<Rightarrow> blob \<Rightarrow> js_exn + string"

text \<open>The record of the client calls a handler has made, in order.\<close>

datatype call =
    ProcessAudio blob string
  | CreateChat blob js_strings string
  | ContinueAudio "string option" blob
  | ModifyAudio "string option" blob

definition aiGreetingInitial :: string where
  "aiGreetingInitial = ''I have reviewed the audio and the transcript. How can I help you further?''"

definition aiGreetingUpdated :: string where
  "aiGreetingUpdated = ''I have updated the transcript with your new dictation. How can I help you further?''"

definition aiGreetingBatch :: string where
  "aiGreetingBatch = ''I have reviewed the audio and transcript for this dictation. How can I help you further?''"

text \<open>The single conversation entry synthesised after a transcription.\<close>

definition transcriptMessage :: "js_strings \<Rightarrow> string \<Rightarrow> chat_message list" where
  "transcriptMessage fs greeting =
     [\<lparr>msg_author = AI, msg_text = js_join (nl @ nl) fs @ nl @ nl @ greeting\<rparr>]"

text \<open>
  The text a per-finding append writes back (\<^verbatim>\<open>handleStopDictation\<close>, in both components):
  \<^verbatim>\<open>existingText + separator + newText.trim()\<close>.
\<close>

definition separator :: "string \<Rightarrow> string" where
  "separator existingText =
     (if length (trim existingText) > 0 \<and> \<not> endsWith existingText '' '' then '' '' else [])"

definition updatedText :: "string \<Rightarrow> string \<Rightarrow> string" where
  "updatedText existingText newText = existingText @ separator existingText @ trim newText"


section \<open>Single mode: App and ResultsDisplay\<close>

datatype AppStatus = Idle | Recording | Processing | Success | Error

datatype cont_status = ContIdle | ContRecording | ContProcessing

text \<open>
  The state of \<^verbatim>\<open>App\<close> (status to selectedModel), the state of \<^verbatim>\<open>ResultsDisplay\<close> that its
  handlers write, and the client calls made so far.
\<close>

record single_state =
  status :: AppStatus
  findings :: js_strings
  error :: "string option"
  audioBlob :: "blob option"
  chat :: "chat_session option"
  chatHistory :: "chat_message list"
  selectedModel :: string
  editingIndex :: "nat option"
  editingText :: string
  dictatingIndex :: "nat option"
  dictateEditingIndex :: "nat option"
  processingIndex :: "nat option"
  continuationError :: "(nat \<times> string) option"
  continuationStatus :: cont_status
  continuationStateError :: "string option"
  calls :: "call list"

text \<open>\<^verbatim>\<open>App.handleRecordingComplete\<close>\<close>

definition handleRecordingComplete :: "clients \<Rightarrow> blob \<Rightarrow> single_state \<Rightarrow> single_state" where
  "handleRecordingComplete cl ab st =
     (if blob_size ab = 0
      then st\<lparr>error := Some ''Recording or upload failed. The audio file is empty.'',
              status := Error\<rparr>
      else
        let st1 = st\<lparr>status := Processing, error := None, findings := []\<rparr>;
            st2 = st1\<lparr>calls := calls st1 @ [ProcessAudio ab (selectedModel st)]\<rparr>
        in case processAudio cl ab (selectedModel st) of
             Inl err \<Rightarrow>
               st2\<lparr>error := Some (message_or err ''An unknown error occurred during processing.''),
                    status := Error\<rparr>
           | Inr processedText \<Rightarrow>
               let st3 = st2\<lparr>findings := map Some processedText, audioBlob := Some ab\<rparr>;
                   st4 = st3\<lparr>calls := calls st3 @ [CreateChat ab (map Some processedText) (selectedModel st)]\<rparr>
               in case createChat cl ab (map Some processedText) (selectedModel st) of
                    Inl err \<Rightarrow>
                      st4\<lparr>error := Some (message_or err ''An unknown error occurred during processing.''),
                           status := Error\<rparr>
                  | Inr chatSession \<Rightarrow>
                      st4\<lparr>chat := Some chatSession,
                           chatHistory := transcriptMessage (map Some processedText) aiGreetingInitial,
                           status := Success\<rparr>)"

text \<open>\<^verbatim>\<open>App.handleReprocess\<close>\<close>

definition handleReprocess :: "clients \<Rightarrow> single_state \<Rightarrow> single_state" where
  "handleReprocess cl st =
     (case audioBlob st of
        None \<Rightarrow> st\<lparr>error := Some ''No audio available to reprocess.'', status := Error\<rparr>
      | Some ab \<Rightarrow> handleRecordingComplete cl ab st)"

text \<open>\<^verbatim>\<open>App.handleUpdateFinding\<close>: the slot is written only if it reads as defined.\<close>

definition handleUpdateFinding :: "nat \<Rightarrow> string \<Rightarrow> single_state \<Rightarrow> single_state" where
  "handleUpdateFinding index newText st =
     st\<lparr>findings :=
          (if js_get (findings st) index \<noteq> None
           then (findings st)[index := Some newText]
           else findings st)\<rparr>"

text \<open>
  \<^verbatim>\<open>App.handleContinueDictation\<close>: the first component is the exception the returned promise
  rejects with, if any.
\<close>

definition handleContinueDictation ::
  "clients \<Rightarrow> blob \<Rightarrow> single_state \<Rightarrow> js_exn option \<times> single_state" where
  "handleContinueDictation cl newAudioBlob st =
     (case audioBlob st of
        None \<Rightarrow> (Some (JsError ''Original audio not found. Cannot continue dictation.''), st)
      | Some ab \<Rightarrow>
          let st1 = st\<lparr>calls := calls st @ [ProcessAudio newAudioBlob (selectedModel st)]\<rparr>
          in case processAudio cl newAudioBlob (selectedModel st) of
               Inl err \<Rightarrow> (Some err, st1)
             | Inr newFindings \<Rightarrow>
                 let updatedFindings = findings st @ map Some newFindings;
                     st2 = st1\<lparr>findings := updatedFindings\<rparr>;
                     mergedBlob = new_Blob [ab, newAudioBlob] (getCleanMimeType ab);
                     st3 = st2\<lparr>audioBlob := Some mergedBlob\<rparr>;
                     st4 = st3\<lparr>calls := calls st3 @ [CreateChat mergedBlob updatedFindings (selectedModel st)]\<rparr>
                 in case createChat cl mergedBlob updatedFindings (selectedModel st) of
                      Inl err \<Rightarrow> (Some err, st4)
                    | Inr chatSession \<Rightarrow>
                        (None, st4\<lparr>chat := Some chatSession,
                                    chatHistory := transcriptMessage updatedFindings aiGreetingUpdated\<rparr>))"

text \<open>
  \<^verbatim>\<open>ResultsDisplay.handleSaveEdit\<close>: parsing an \<^verbatim>\<open>undefined\<close> finding throws, and the handler
  ends there.
\<close>

definition handleSaveEdit :: "single_state \<Rightarrow> js_exn + single_state" where
  "handleSaveEdit st =
     (case editingIndex st of
        None \<Rightarrow> Inr (st\<lparr>editingIndex := None, editingText := []\<rparr>)
      | Some i \<Rightarrow>
          (case js_get (findings st) i of
             None \<Rightarrow> Inl (undefinedRead ''split'')
           | Some originalFinding \<Rightarrow>
               Inr ((handleUpdateFinding i (savedText originalFinding (editingText st)) st)
                      \<lparr>editingIndex := None, editingText := []\<rparr>)))"

text \<open>
  \<^verbatim>\<open>ResultsDisplay.handleStopDictation\<close>; \<open>captured\<close> is what the recorder's
  \<^verbatim>\<open>stopRecording\<close> resolves to (\<open>None\<close> for \<^verbatim>\<open>null\<close>).
\<close>

definition handleStopDictation :: "clients \<Rightarrow> blob option \<Rightarrow> single_state \<Rightarrow> single_state" where
  "handleStopDictation cl captured st =
     (case dictatingIndex st of
        None \<Rightarrow> st
      | Some currentIndex \<Rightarrow>
          let st1 = st\<lparr>dictatingIndex := None\<rparr> in
          (case captured of
             None \<Rightarrow> st1
           | Some ab \<Rightarrow>
               if blob_size ab > 0 then
                 let existingText = js_get (findings st) currentIndex;
                     st2 = st1\<lparr>processingIndex := Some currentIndex,
                               calls := calls st1 @ [ContinueAudio existingText ab]\<rparr>
                 in (case continueAudioDictation cl existingText ab of
                       Inl err \<Rightarrow>
                         st2\<lparr>continuationError :=
                                Some (currentIndex, message_or err ''An unknown error occurred.''),
                              processingIndex := None\<rparr>
                     | Inr newText \<Rightarrow>
                         (case existingText of
                            None \<Rightarrow>
                              st2\<lparr>continuationError :=
                                     Some (currentIndex,
                                       message_or (undefinedRead ''trim'') ''An unknown error occurred.''),
                                   processingIndex := None\<rparr>
                          | Some et \<Rightarrow>
                              (handleUpdateFinding currentIndex (updatedText et newText) st2)
                                \<lparr>processingIndex := None\<rparr>))
               else st1))"

text \<open>\<^verbatim>\<open>ResultsDisplay.handleStopDictateEdit\<close>\<close>

definition handleStopDictateEdit :: "clients \<Rightarrow> blob option \<Rightarrow> single_state \<Rightarrow> single_state" where
  "handleStopDictateEdit cl captured st =
     (case dictateEditingIndex st of
        None \<Rightarrow> st
      | Some currentIndex \<Rightarrow>
          let st1 = st\<lparr>dictateEditingIndex := None\<rparr> in
          (case captured of
             None \<Rightarrow> st1
           | Some ab \<Rightarrow>
               if blob_size ab > 0 then
                 let existingText = js_get (findings st) currentIndex;
                     st2 = st1\<lparr>processingIndex := Some currentIndex,
                               calls := calls st1 @ [ModifyAudio existingText ab]\<rparr>
                 in (case modifyFindingWithAudio cl existingText ab of
                       Inl err \<Rightarrow>
                         st2\<lparr>continuationError :=
                                Some (currentIndex, message_or err ''An unknown error occurred.''),
                              processingIndex := None\<rparr>
                     | Inr modifiedText \<Rightarrow>
                         (handleUpdateFinding currentIndex modifiedText st2)
                           \<lparr>processingIndex := None\<rparr>)
               else st1))"

text \<open>\<^verbatim>\<open>ResultsDisplay.handleStopContinue\<close>, with \<^verbatim>\<open>onContinueDictation\<close> the handler of App.\<close>

definition handleStopContinue :: "clients \<Rightarrow> blob option \<Rightarrow> single_state \<Rightarrow> single_state" where
  "handleStopContinue cl captured st =
     (case captured of
        None \<Rightarrow> st\<lparr>continuationStatus := ContIdle, continuationStateError := None\<rparr>
      | Some ab \<Rightarrow>
          if blob_size ab > 0 then
            let st1 = st\<lparr>continuationStatus := ContProcessing, continuationStateError := None\<rparr>
            in (case handleContinueDictation cl ab st1 of
                  (None, st2) \<Rightarrow> st2\<lparr>continuationStatus := ContIdle, continuationStateError := None\<rparr>
                | (Some err, st2) \<Rightarrow>
                    st2\<lparr>continuationStatus := ContIdle,
                         continuationStateError := Some (message_or err ''An unknown error occurred.'')\<rparr>)
          else st\<lparr>continuationStatus := ContIdle, continuationStateError := None\<rparr>)"


section \<open>Selection and copy\<close>

text \<open>\<^verbatim>\<open>if (snippet)\<close>: a missing snippet and the empty string are both falsy.\<close>

definition truthy :: "string option \<Rightarrow> bool" where
  "truthy x = (case x of None \<Rightarrow> False | Some s \<Rightarrow> s \<noteq> [])"






section \<open>Batch mode: BatchProcessor\<close>

datatype BatchStatus = BIdle | BRecording | BPaused | BComplete | BProcessing | BError

record batch =
  bid :: string
  bname :: string
  audioBlobs :: "blob list"
  bfindings :: "js_strings option"
  bstatus :: BatchStatus
  bselectedModel :: string
  berror :: "string option"
  bchat :: "chat_session option"
  bchatHistory :: "chat_message list option"
  isChatting :: "bool option"

text \<open>
  The state of \<^verbatim>\<open>BatchProcessor\<close> that its handlers write, \<open>isMainRecording\<close> of the main
  recorder, and the client calls made so far.
\<close>

record batch_state =
  batches :: "batch list"
  activeBatchId :: "string option"
  isMainRecording :: bool
  isBusy :: bool
  contBatchId :: "string option"
  contStatus :: cont_status
  contError :: "string option"
  editingState :: "(string \<times> nat) option"
  beditingText :: string
  dictatingState :: "(string \<times> nat) option"
  dictateEditingState :: "(string \<times> nat) option"
  processingState :: "(string \<times> nat) option"
  bcontinuationError :: "(string \<times> nat \<times> string) option"
  bcalls :: "call list"

text \<open>\<^verbatim>\<open>prev.map(b => b.id === id ? f(b) : b)\<close>\<close>

definition updateBatch :: "string \<Rightarrow> (batch \<Rightarrow> batch) \<Rightarrow> batch list \<Rightarrow> batch list" where
  "updateBatch i f bs = map (\<lambda>b. if bid b = i then f b else b) bs"


text \<open>
  \<^verbatim>\<open>handleRecordOrResume\<close>. \<open>captured\<close> is what \<^verbatim>\<open>stopMainRecording\<close> resolves to when it is
  called; the recorder runs once \<^verbatim>\<open>startMainRecording\<close> has resolved.
\<close>

definition handleRecordOrResume :: "blob option \<Rightarrow> batch \<Rightarrow> batch_state \<Rightarrow> batch_state" where
  "handleRecordOrResume captured b st =
     (if isBusy st then st
      else
        let previouslyActiveBatchId = activeBatchId st;
            capturedBlob =
              (if isMainRecording st \<and> truthy previouslyActiveBatchId
                  \<and> previouslyActiveBatchId \<noteq> Some (bid b)
               then captured else None);
            newBatches1 =
              (case capturedBlob of
                 None \<Rightarrow> batches st
               | Some cb \<Rightarrow>
                   if truthy previouslyActiveBatchId
                   then updateBatch (the previouslyActiveBatchId)
                          (\<lambda>x. x\<lparr>audioBlobs := audioBlobs x @ [cb], bstatus := BPaused\<rparr>)
                          (batches st)
                   else batches st);
            newBatches2 = updateBatch (bid b) (\<lambda>x. x\<lparr>bstatus := BRecording\<rparr>) newBatches1
        in st\<lparr>isMainRecording := True, activeBatchId := Some (bid b),
               batches := newBatches2, isBusy := False\<rparr>)"




definition completeBatch :: "js_strings \<Rightarrow> chat_session \<Rightarrow> batch \<Rightarrow> batch" where
  "completeBatch fs chatSession b =
     b\<lparr>bstatus := BComplete, bfindings := Some fs, bchat := Some chatSession,
       bchatHistory := Some (transcriptMessage fs aiGreetingBatch), isChatting := Some False\<rparr>"





text \<open>\<^verbatim>\<open>handleReprocessBatch\<close>\<close>

definition handleReprocessBatch :: "clients \<Rightarrow> string \<Rightarrow> batch_state \<Rightarrow> batch_state" where
  "handleReprocessBatch cl batchId st =
     (case find (\<lambda>b. bid b = batchId) (batches st) of
        None \<Rightarrow> st
      | Some b \<Rightarrow>
          if length (audioBlobs b) = 0 then st
          else
            let st0 = st\<lparr>batches := updateBatch batchId
                          (\<lambda>x. x\<lparr>bstatus := BProcessing, berror := None\<rparr>) (batches st)\<rparr>;
                mimeType = blob_type (hd (audioBlobs b));
                mergedBlob = new_Blob (audioBlobs b) mimeType;
                st1 = st0\<lparr>bcalls := bcalls st0 @ [ProcessAudio mergedBlob (bselectedModel b)]\<rparr>
            in case processAudio cl mergedBlob (bselectedModel b) of
                 Inl err \<Rightarrow>
                   st1\<lparr>batches := updateBatch batchId
                      (\<lambda>x. x\<lparr>bstatus := BError,
                              berror := Some (message_or err ''An unknown error occurred.''),
                              bfindings := None\<rparr>)
                      (batches st1)\<rparr>
               | Inr fs \<Rightarrow>
                   let st2 = st1\<lparr>bcalls := bcalls st1
                                @ [CreateChat mergedBlob (map Some fs) (bselectedModel b)]\<rparr>
                   in case createChat cl mergedBlob (map Some fs) (bselectedModel b) of
                        Inl err \<Rightarrow>
                          st2\<lparr>batches := updateBatch batchId
                             (\<lambda>x. x\<lparr>bstatus := BError,
                                     berror := Some (message_or err ''An unknown error occurred.''),
                                     bfindings := None\<rparr>)
                             (batches st2)\<rparr>
                      | Inr chatSession \<Rightarrow>
                          st2\<lparr>batches := updateBatch batchId
                             (completeBatch (map Some fs) chatSession) (batches st2)\<rparr>)"

text \<open>\<^verbatim>\<open>handleUpdateFindingForBatch\<close>: the slot is written whatever the index.\<close>

definition handleUpdateFindingForBatch ::
  "string \<Rightarrow> nat \<Rightarrow> string \<Rightarrow> batch_state \<Rightarrow> batch_state" where
  "handleUpdateFindingForBatch batchId findingIndex newText st =
     st\<lparr>batches :=
          map (\<lambda>b. case bfindings b of
                     None \<Rightarrow> b
                   | Some fs \<Rightarrow>
                       if bid b = batchId
                       then b\<lparr>bfindings := Some (js_set fs findingIndex newText)\<rparr>
                       else b)
              (batches st)\<rparr>"

text \<open>\<^verbatim>\<open>BatchProcessor.handleSaveEdit\<close>\<close>

definition handleSaveEditBatch :: "batch_state \<Rightarrow> js_exn + batch_state" where
  "handleSaveEditBatch st =
     (case editingState st of
        None \<Rightarrow> Inr (st\<lparr>editingState := None, beditingText := []\<rparr>)
      | Some (batchId, index) \<Rightarrow>
          (case find (\<lambda>b. bid b = batchId) (batches st) of
             None \<Rightarrow> Inr (st\<lparr>editingState := None, beditingText := []\<rparr>)
           | Some b \<Rightarrow>
               (case bfindings b of
                  None \<Rightarrow> Inr (st\<lparr>editingState := None, beditingText := []\<rparr>)
                | Some fs \<Rightarrow>
                    (case js_get fs index of
                       None \<Rightarrow> Inl (undefinedRead ''split'')
                     | Some originalFinding \<Rightarrow>
                         Inr ((handleUpdateFindingForBatch batchId index
                                 (savedText originalFinding (beditingText st)) st)
                                \<lparr>editingState := None, beditingText := []\<rparr>)))))"

text \<open>\<^verbatim>\<open>BatchProcessor.handleStopDictation\<close>\<close>

definition handleStopDictationBatch ::
  "clients \<Rightarrow> blob option \<Rightarrow> batch_state \<Rightarrow> batch_state" where
  "handleStopDictationBatch cl captured st =
     (case dictatingState st of
        None \<Rightarrow> st
      | Some (batchId, index) \<Rightarrow>
          let st1 = st\<lparr>dictatingState := None\<rparr> in
          (case (find (\<lambda>b. bid b = batchId) (batches st), captured) of
             (Some b, Some ab) \<Rightarrow>
               (case bfindings b of
                  None \<Rightarrow> st1
                | Some fs \<Rightarrow>
                    if blob_size ab > 0 then
                      let existingText = js_get fs index;
                          st2 = st1\<lparr>processingState := Some (batchId, index),
                                    bcalls := bcalls st1 @ [ContinueAudio existingText ab]\<rparr>
                      in (case continueAudioDictation cl existingText ab of
                            Inl err \<Rightarrow>
                              st2\<lparr>bcontinuationError :=
                                     Some (batchId, index,
                                       message_or err ''An unknown error occurred.''),
                                   processingState := None\<rparr>
                          | Inr newText \<Rightarrow>
                              (case existingText of
                                 None \<Rightarrow>
                                   st2\<lparr>bcontinuationError :=
                                          Some (batchId, index,
                                            message_or (undefinedRead ''trim'')
                                              ''An unknown error occurred.''),
                                        processingState := None\<rparr>
                               | Some et \<Rightarrow>
                                   (handleUpdateFindingForBatch batchId index
                                      (updatedText et newText) st2)
                                     \<lparr>processingState := None\<rparr>))
                    else st1)
           | _ \<Rightarrow> st1))"

text \<open>\<^verbatim>\<open>handleStopDictateEditForBatch\<close>\<close>

definition handleStopDictateEditForBatch ::
  "clients \<Rightarrow> blob option \<Rightarrow> batch_state \<Rightarrow> batch_state" where
  "handleStopDictateEditForBatch cl captured st =
     (case dictateEditingState st of
        None \<Rightarrow> st
      | Some (batchId, index) \<Rightarrow>
          let st1 = st\<lparr>dictateEditingState := None\<rparr> in
          (case (find (\<lambda>b. bid b = batchId) (batches st), captured) of
             (Some b, Some ab) \<Rightarrow>
               (case bfindings b of
                  None \<Rightarrow> st1
                | Some fs \<Rightarrow>
                    if blob_size ab > 0 then
                      let existingText = js_get fs index;
                          st2 = st1\<lparr>processingState := Some (batchId, index),
                                    bcalls := bcalls st1 @ [ModifyAudio existingText ab]\<rparr>
                      in (case modifyFindingWithAudio cl existingText ab of
                            Inl err \<Rightarrow>
                              st2\<lparr>bcontinuationError :=
                                     Some (batchId, index,
                                       message_or err ''An unknown error occurred.''),
                                   processingState := None\<rparr>
                          | Inr newText \<Rightarrow>
                              (handleUpdateFindingForBatch batchId index newText st2)
                                \<lparr>processingState := None\<rparr>)
                    else st1)
           | _ \<Rightarrow> st1))"

text \<open>\<^verbatim>\<open>BatchProcessor.handleStopContinue\<close>\<close>

definition handleStopContinueBatch ::
  "clients \<Rightarrow> blob option \<Rightarrow> batch_state \<Rightarrow> batch_state" where
  "handleStopContinueBatch cl captured st =
     (if \<not> truthy (contBatchId st) then st
      else
        let batchId = the (contBatchId st);
            idle = st\<lparr>contBatchId := None, contStatus := ContIdle, contError := None\<rparr>
        in case captured of
             None \<Rightarrow> idle
           | Some newAudioBlob \<Rightarrow>
               if blob_size newAudioBlob > 0 then
                 let st1 = st\<lparr>contBatchId := Some batchId, contStatus := ContProcessing,
                               contError := None\<rparr>;
                     notFound = st1\<lparr>contStatus := ContIdle,
                                     contError := Some ''Original batch not found.''\<rparr>
                 in (case find (\<lambda>b. bid b = batchId) (batches st) of
                       None \<Rightarrow> notFound
                     | Some b \<Rightarrow>
                         (case bfindings b of
                            None \<Rightarrow> notFound
                          | Some fs \<Rightarrow>
                              let st2 = st1\<lparr>bcalls := bcalls st1
                                           @ [ProcessAudio newAudioBlob (bselectedModel b)]\<rparr>
                              in (case processAudio cl newAudioBlob (bselectedModel b) of
                                    Inl err \<Rightarrow>
                                      st2\<lparr>contStatus := ContIdle,
                                           contError := Some (message_or err
                                             ''An unknown error occurred.'')\<rparr>
                                  | Inr newFindings \<Rightarrow>
                                      let updatedFindings = fs @ map Some newFindings;
                                          updatedAudioBlobs = audioBlobs b @ [newAudioBlob];
                                          mimeType = blob_type (hd updatedAudioBlobs);
                                          mergedBlob = new_Blob updatedAudioBlobs mimeType;
                                          st3 = st2\<lparr>bcalls := bcalls st2
                                            @ [CreateChat mergedBlob updatedFindings
                                                 (bselectedModel b)]\<rparr>
                                      in (case createChat cl mergedBlob updatedFindings
                                                 (bselectedModel b) of
                                            Inl err \<Rightarrow>
                                              st3\<lparr>contStatus := ContIdle,
                                                   contError := Some (message_or err
                                                     ''An unknown error occurred.'')\<rparr>
                                          | Inr chatSession \<Rightarrow>
                                              st3\<lparr>batches := updateBatch batchId
                                                     (\<lambda>x. x\<lparr>bfindings := Some updatedFindings,
                                                             audioBlobs := updatedAudioBlobs,
                                                             bchat := Some chatSession,
                                                             bchatHistory := Some
                                                               (transcriptMessage updatedFindings
                                                                  aiGreetingUpdated)\<rparr>)
                                                     (batches st3),
                                                   contBatchId := None, contStatus := ContIdle,
                                                   contError := None\<rparr>))))
               else idle)"


section \<open>Snapshots in local storage\<close>

definition SINGLE_MODE_STORAGE_KEY :: string where
  "SINGLE_MODE_STORAGE_KEY = ''radiologyDictationSingleMode''"

definition BATCH_MODE_STORAGE_KEY :: string where
  "BATCH_MODE_STORAGE_KEY = ''radiologyDictationBatchMode''"

record saved_audio =
  sa_data :: string
  sa_type :: string

record saved_single =
  sv_findings :: "js_strings option"
  sv_audio :: "saved_audio option"
  sv_chatHistory :: "chat_message list option"
  sv_selectedModel :: "string option"

record saved_batch =
  sb_id :: string
  sb_name :: string
  sb_audioBlobs :: "saved_audio list"
  sb_findings :: "js_strings option"
  sb_status :: BatchStatus
  sb_selectedModel :: string
  sb_error :: "string option"
  sb_chatHistory :: "chat_message list option"
  sb_isChatting :: "bool option"

text \<open>
  An item of the storage, as \<^verbatim>\<open>JSON.parse\<close> reads it: text that does not parse, a
  single-mode snapshot, or an array of batch snapshots.
\<close>

datatype stored = Unparsable | StoredSingle saved_single | StoredBatches "saved_batch list"

type_synonym storage = "string \<Rightarrow> stored option"

text \<open>
  \<^verbatim>\<open>base64ToBlob\<close>; \<open>atob\<close> is the decoder of the platform, which throws on malformed
  input. The exception is caught here and an empty blob returned.
\<close>

definition base64ToBlob :: "(string \<Rightarrow> js_exn + string) \<Rightarrow> string \<Rightarrow> string \<Rightarrow> blob" where
  "base64ToBlob atob base64 mimeType =
     (case atob base64 of
        Inr byteCharacters \<Rightarrow> blobOf byteCharacters mimeType
      | Inl e \<Rightarrow> blobOf [] mimeType)"

text \<open>
  The loading effect of \<^verbatim>\<open>App\<close>: the state and the storage after it. The chat session is
  recreated behind it; a failure there is logged only.
\<close>

definition loadSingleState ::
  "(string \<Rightarrow> js_exn + string) \<Rightarrow> clients \<Rightarrow> storage \<Rightarrow> single_state
     \<Rightarrow> single_state \<times> storage" where
  "loadSingleState atob cl store st =
     (case store SINGLE_MODE_STORAGE_KEY of
        None \<Rightarrow> (st, store)
      | Some Unparsable \<Rightarrow> (st, store(SINGLE_MODE_STORAGE_KEY := None))
      | Some (StoredBatches l) \<Rightarrow> (st, store)
      | Some (StoredSingle sv) \<Rightarrow>
          (case (sv_findings sv, sv_audio sv) of
             (Some fs, Some au) \<Rightarrow>
               if length fs > 0 then
                 let b = base64ToBlob atob (sa_data au) (sa_type au);
                     modelToUse = (if truthy (sv_selectedModel sv)
                                   then the (sv_selectedModel sv) else ''gemini-2.5-pro'');
                     st1 = st\<lparr>findings := fs, audioBlob := Some b,
                              chatHistory := (case sv_chatHistory sv of
                                                None \<Rightarrow> [] | Some h \<Rightarrow> h),
                              status := Success, selectedModel := modelToUse,
                              calls := calls st @ [CreateChat b fs modelToUse]\<rparr>
                 in (case createChat cl b fs modelToUse of
                       Inr c \<Rightarrow> (st1\<lparr>chat := Some c\<rparr>, store)
                     | Inl e \<Rightarrow> (st1, store))
               else (st, store)
           | _ \<Rightarrow> (st, store)))"

text \<open>
  The saving effect of \<^verbatim>\<open>App\<close>; \<open>blobToBase64\<close> reads the blob through a \<^verbatim>\<open>FileReader\<close> and
  may reject.
\<close>

definition saveSingleState ::
  "(blob \<Rightarrow> js_exn + string) \<Rightarrow> single_state \<Rightarrow> storage \<Rightarrow> storage" where
  "saveSingleState blobToBase64 st store =
     (case audioBlob st of
        None \<Rightarrow> store
      | Some ab \<Rightarrow>
          if status st = Success \<and> length (findings st) > 0 then
            (case blobToBase64 ab of
               Inl e \<Rightarrow> store
             | Inr d \<Rightarrow>
                 store(SINGLE_MODE_STORAGE_KEY \<mapsto> StoredSingle
                   \<lparr>sv_findings = Some (findings st),
                    sv_audio = Some \<lparr>sa_data = d, sa_type = getCleanMimeType ab\<rparr>,
                    sv_chatHistory = Some (chatHistory st),
                    sv_selectedModel = Some (selectedModel st)\<rparr>))
          else store)"

fun serializeBlobs :: "(blob \<Rightarrow> js_exn + string) \<Rightarrow> blob list \<Rightarrow> js_exn + saved_audio list" where
  "serializeBlobs blobToBase64 [] = Inr []"
| "serializeBlobs blobToBase64 (b # bs) =
     (case blobToBase64 b of
        Inl e \<Rightarrow> Inl e
      | Inr d \<Rightarrow>
          (case serializeBlobs blobToBase64 bs of
             Inl e \<Rightarrow> Inl e
           | Inr ds \<Rightarrow> Inr (\<lparr>sa_data = d, sa_type = getCleanMimeType b\<rparr> # ds)))"

fun serializeBatches :: "(blob \<Rightarrow> js_exn + string) \<Rightarrow> batch list \<Rightarrow> js_exn + saved_batch list" where
  "serializeBatches blobToBase64 [] = Inr []"
| "serializeBatches blobToBase64 (b # bs) =
     (case serializeBlobs blobToBase64 (audioBlobs b) of
        Inl e \<Rightarrow> Inl e
      | Inr au \<Rightarrow>
          (case serializeBatches blobToBase64 bs of
             Inl e \<Rightarrow> Inl e
           | Inr rest \<Rightarrow>
               Inr (\<lparr>sb_id = bid b, sb_name = bname b, sb_audioBlobs = au,
                     sb_findings = bfindings b, sb_status = bstatus b,
                     sb_selectedModel = bselectedModel b, sb_error = berror b,
                     sb_chatHistory = bchatHistory b, sb_isChatting = isChatting b\<rparr> # rest)))"

text \<open>The saving effect of \<^verbatim>\<open>BatchProcessor\<close>: every field but the chat handle is kept as it is.\<close>

definition saveBatchState ::
  "(blob \<Rightarrow> js_exn + string) \<Rightarrow> batch list \<Rightarrow> storage \<Rightarrow> storage" where
  "saveBatchState blobToBase64 bs store =
     (if length bs = 0 then store(BATCH_MODE_STORAGE_KEY := None)
      else case serializeBatches blobToBase64 bs of
             Inl e \<Rightarrow> store
           | Inr l \<Rightarrow> store(BATCH_MODE_STORAGE_KEY \<mapsto> StoredBatches l))"

definition restoreBatch :: "(string \<Rightarrow> js_exn + string) \<Rightarrow> clients \<Rightarrow> saved_batch \<Rightarrow> batch" where
  "restoreBatch atob cl sb =
     (let blobs = map (\<lambda>sa. base64ToBlob atob (sa_data sa) (sa_type sa)) (sb_audioBlobs sb);
          recreated =
            (case sb_findings sb of
               None \<Rightarrow> None
             | Some fs \<Rightarrow>
                 if sb_status sb = BComplete \<and> length blobs > 0 then
                   (case createChat cl
                           (new_Blob blobs (if blob_type (hd blobs) = [] then ''audio/webm''
                                            else blob_type (hd blobs)))
                           fs (sb_selectedModel sb) of
                      Inr c \<Rightarrow> Some c | Inl e \<Rightarrow> None)
                 else None)
      in \<lparr>bid = sb_id sb, bname = sb_name sb, audioBlobs = blobs, bfindings = sb_findings sb,
          bstatus = sb_status sb, bselectedModel = sb_selectedModel sb, berror = sb_error sb,
          bchat = recreated, bchatHistory = sb_chatHistory sb, isChatting = sb_isChatting sb\<rparr>)"

text \<open>
  The loading effect of \<^verbatim>\<open>BatchProcessor\<close>, run once when the component is mounted; the
  other state of the component is at its initial values then.
\<close>

definition loadBatchState ::
  "(string \<Rightarrow> js_exn + string) \<Rightarrow> clients \<Rightarrow> storage \<Rightarrow> batch_state
     \<Rightarrow> batch_state \<times> storage" where
  "loadBatchState atob cl store st =
     (case store BATCH_MODE_STORAGE_KEY of
        None \<Rightarrow> (st, store)
      | Some Unparsable \<Rightarrow> (st, store(BATCH_MODE_STORAGE_KEY := None))
      | Some (StoredSingle sv) \<Rightarrow> (st, store(BATCH_MODE_STORAGE_KEY := None))
      | Some (StoredBatches savedBatches) \<Rightarrow>
          let restoredBatches = map (restoreBatch atob cl) savedBatches in
          if length restoredBatches > 0 then (st\<lparr>batches := restoredBatches\<rparr>, store)
          else (st, store))"

text \<open>The state of \<^verbatim>\<open>BatchProcessor\<close> when it is mounted.\<close>

definition initialBatchState :: batch_state where
  "initialBatchState =
     \<lparr>batches = [], activeBatchId = None, isMainRecording = False, isBusy = False,
      contBatchId = None, contStatus = ContIdle, contError = None, editingState = None,
      beditingText = [], dictatingState = None, dictateEditingState = None,
      processingState = None, bcontinuationError = None, bcalls = []\<rparr>"

text \<open>The state of \<^verbatim>\<open>App\<close> and \<^verbatim>\<open>ResultsDisplay\<close> when they are mounted.\<close>

definition initialSingleState :: single_state where
  "initialSingleState =
     \<lparr>status = Idle, findings = [], error = None, audioBlob = None, chat = None,
      chatHistory = [], selectedModel = ''gemini-2.5-pro'', editingIndex = None,
      editingText = [], dictatingIndex = None, dictateEditingIndex = None,
      processingIndex = None, continuationError = None, continuationStatus = ContIdle,
      continuationStateError = None, calls = []\<rparr>"

text \<open>A number in a template string: its decimal digits.\<close>

function decimal :: "nat \<Rightarrow> string" where
  "decimal n =
     (if n < 10 then [''0123456789'' ! n]
      else decimal (n div 10) @ [''0123456789'' ! (n mod 10)])"
  by pat_completeness auto
termination
  by (relation "measure id") auto

declare decimal.simps [simp del]

text \<open>
  \<^verbatim>\<open>addBatch\<close>; \<open>newId\<close> is what \<^verbatim>\<open>crypto.randomUUID()\<close> returns and \<open>model\<close> the
  \<^verbatim>\<open>selectedModel\<close> property of the component.
\<close>

definition addBatch :: "string \<Rightarrow> string \<Rightarrow> batch_state \<Rightarrow> batch_state" where
  "addBatch newId model st =
     st\<lparr>batches := batches st @
          [\<lparr>bid = newId, bname = ''Dictation #'' @ decimal (length (batches st) + 1),
            audioBlobs = [], bfindings = None, bstatus = BIdle,
            bselectedModel = model, berror = None, bchat = None, bchatHistory = None,
            isChatting = Some False\<rparr>]\<rparr>"


section \<open>The base64 decoder of the platform\<close>

text \<open>
  \<^verbatim>\<open>atob\<close> as the HTML standard defines it: ASCII whitespace is removed, up to two
  padding characters are removed from a string whose length is a multiple of four, and
  a remaining length of one modulo four or a character outside the alphabet is an
  \<^verbatim>\<open>InvalidCharacterError\<close>. The handlers take the decoder as a parameter; this one is used
  to run them on concrete snapshots.
\<close>

definition b64_value :: "char \<Rightarrow> nat option" where
  "b64_value c =
     (let n = (of_char c :: nat) in
      if 65 \<le> n \<and> n \<le> 90 then Some (n - 65)
      else if 97 \<le> n \<and> n \<le> 122 then Some (n - 71)
      else if 48 \<le> n \<and> n \<le> 57 then Some (n + 4)
      else if n = 43 then Some 62
      else if n = 47 then Some 63
      else None)"

fun b64_bytes :: "nat list \<Rightarrow> string" where
  "b64_bytes (a # b # c # d # rest) =
     (let n = ((a * 64 + b) * 64 + c) * 64 + d
      in char_of (n div 65536) # char_of (n div 256 mod 256) # char_of (n mod 256)
         # b64_bytes rest)"
| "b64_bytes [a, b, c] =
     (let n = (a * 64 + b) * 64 + c in [char_of (n div 1024), char_of (n div 4 mod 256)])"
| "b64_bytes [a, b] = [char_of ((a * 64 + b) div 16)]"
| "b64_bytes [a] = []"
| "b64_bytes [] = []"

definition atob_platform :: "string \<Rightarrow> js_exn + string" where
  "atob_platform s =
     (let d = filter (\<lambda>c. c \<notin> set [CHR 0x09, CHR 0x0A, CHR 0x0C, CHR 0x0D, CHR 0x20]) s;
          e = (if length d mod 4 = 0
               then (if suffix ''=='' d then take (length d - 2) d
                     else if suffix ''='' d then take (length d - 1) d else d)
               else d)
      in if length e mod 4 = 1 \<or> list_ex (\<lambda>c. b64_value c = None) e
         then Inl (JsError ''The string to be decoded is not correctly encoded.'')
         else Inr (b64_bytes (map (\<lambda>c. the (b64_value c)) e)))"


text \<open>
  The update that the per-batch operation of \<^verbatim>\<open>handleProcessAll\<close> for \<open>b\<close> ends with, read
  off \<open>settleBatch\<close>: the error update if the transcription or the chat creation
  throws, the completing update otherwise.
\<close>

definition outcomeUpdate :: "clients \<Rightarrow> string \<Rightarrow> batch \<Rightarrow> batch \<Rightarrow> batch" where
  "outcomeUpdate cl model b =
     (let mergedBlob = new_Blob (audioBlobs b) (blob_type (hd (audioBlobs b)))
      in case processAudio cl mergedBlob model of
           Inl err \<Rightarrow>
             (\<lambda>x. x\<lparr>bstatus := BError,
                     berror := Some (message_or err ''An unknown error occurred.'')\<rparr>)
         | Inr fs \<Rightarrow>
             (case createChat cl mergedBlob (map Some fs) model of
                Inl err \<Rightarrow>
                  (\<lambda>x. x\<lparr>bstatus := BError,
                          berror := Some (message_or err ''An unknown error occurred.'')\<rparr>)
              | Inr chatSession \<Rightarrow> completeBatch (map Some fs) chatSession))"

section \<open>Scripted clients and sample states\<close>

text \<open>
  Clients that answer every call the same way: the transcription with \<open>pa\<close>, the chat
  creation with the exception \<open>ce\<close> if there is one and with the session otherwise, the
  continuation with \<open>ct\<close> and the modification with \<open>mt\<close>.
\<close>

definition fixedClients ::
  "(js_exn + string list) \<Rightarrow> js_exn option \<Rightarrow> (js_exn + string) \<Rightarrow> (js_exn + string)
     \<Rightarrow> clients" where
  "fixedClients pa ce ct mt =
     \<lparr>processAudio = (\<lambda>b m. pa),
      createChat = (\<lambda>b fs m. case ce of Some e \<Rightarrow> Inl e | None \<Rightarrow> Inr (Chat b fs m)),
      continueAudioDictation = (\<lambda>e b. ct),
      modifyFindingWithAudio = (\<lambda>e b. mt)\<rparr>"

text \<open>A batch with the given id, status, audio and findings, the other fields as \<^verbatim>\<open>addBatch\<close> sets them.\<close>

definition plainBatch ::
  "string \<Rightarrow> BatchStatus \<Rightarrow> blob list \<Rightarrow> js_strings option \<Rightarrow> batch" where
  "plainBatch i s au fs =
     \<lparr>bid = i, bname = ''Dictation'', audioBlobs = au, bfindings = fs, bstatus = s,
      bselectedModel = ''gemini-2.5-pro'', berror = None, bchat = None, bchatHistory = None,
      isChatting = Some False\<rparr>"

text \<open>A recording of the given bytes.\<close>

definition webm :: "string \<Rightarrow> blob" where
  "webm bs = \<lparr>blob_bytes = bs, blob_type = ''audio/webm''\<rparr>"

text \<open>A session after a successful transcription of \<open>au\<close> into \<open>fs\<close>.\<close>

definition successSession :: "string list \<Rightarrow> blob \<Rightarrow> single_state" where
  "successSession fs au =
     initialSingleState\<lparr>status := Success, findings := map Some fs, audioBlob := Some au,
       chat := Some (Chat au (map Some fs) ''gemini-2.5-pro''),
       chatHistory := transcriptMessage (map Some fs) aiGreetingInitial\<rparr>"

section \<open>Splitting and joining\<close>

lemma split_aux_no_occ:
  "\<not> sublist sep s \<Longrightarrow> split_aux sep cur s = [rev cur @ s]"
proof (induction s arbitrary: cur)
  case Nil
  then show ?case by simp
next
  case (Cons c cs)
  have np: "\<not> prefix sep (c # cs)"
    using Cons.prems by (meson prefix_imp_sublist)
  have ns: "\<not> sublist sep cs"
    using Cons.prems by (meson sublist_Cons_right)
  show ?case using np Cons.IH [OF ns] by simp
qed

lemma split_aux_first:
  assumes "sep \<noteq> []" and "\<forall>i<length a. \<not> prefix sep (drop i a @ sep @ rest)"
  shows "split_aux sep cur (a @ sep @ rest) = (rev cur @ a) # split_aux sep [] rest"
  using assms(2)
proof (induction a arbitrary: cur)
  case Nil
  obtain d ds where sep: "sep = d # ds" using assms(1) by (cases sep) auto
  show ?case by (simp add: sep)
next
  case (Cons c cs)
  have np: "\<not> prefix sep (c # cs @ sep @ rest)"
    using Cons.prems by force
  have sh: "\<forall>i<length cs. \<not> prefix sep (drop i cs @ sep @ rest)"
  proof (intro allI impI)
    fix i assume "i < length cs"
    then have "Suc i < length (c # cs)" by simp
    from Cons.prems [rule_format, OF this]
    show "\<not> prefix sep (drop i cs @ sep @ rest)" by simp
  qed
  show ?case using np Cons.IH [OF sh] by simp
qed

text \<open>
  In front of a delimiter, a piece that holds no delimiter and does not end in a hash
  sign cannot make the delimiter start early.
\<close>

lemma delim_not_early:
  assumes ns: "\<not> sublist delim a" and ne: "\<not> endsWith a ''#''"
  shows "\<forall>i<length a. \<not> prefix delim (drop i a @ delim @ rest)"
proof (intro allI impI notI)
  fix i assume i: "i < length a" and p: "prefix delim (drop i a @ delim @ rest)"
  define b where "b = drop i a"
  have bne: "b \<noteq> []" using i by (simp add: b_def)
  have suf: "suffix b a" by (simp add: b_def suffix_drop)
  have nsb: "\<not> sublist delim b"
    using ns suf by (meson sublist_order.dual_order.trans suffix_imp_sublist)
  have lastb: "last b \<noteq> CHR ''#''"
  proof
    assume "last b = CHR ''#''"
    then have "suffix ''#'' b" using bne
      by (metis append_butlast_last_id suffixI)
    then have "suffix ''#'' a" using suf by (meson suffix_order.trans)
    then show False using ne by (simp add: endsWith_def)
  qed
  from p have p': "prefix ''###'' (b @ ''###'' @ rest)" by (simp add: b_def delim_def)
  show False
  proof (cases b)
    case Nil
    then show ?thesis using bne by simp
  next
    case (Cons b1 r1)
    note c1 = this
    show ?thesis
    proof (cases r1)
      case Nil
      then show ?thesis using p' lastb c1 by simp
    next
      case (Cons b2 r2)
      note c2 = this
      show ?thesis
      proof (cases r2)
        case Nil
        then show ?thesis using p' lastb c1 c2 by auto
      next
        case (Cons b3 r3)
        then have "prefix ''###'' b" using p' c1 c2 by auto
        then show ?thesis using nsb by (simp add: delim_def prefix_imp_sublist)
      qed
    qed
  qed
qed

lemma split_join_delim:
  assumes "segs \<noteq> []"
    and "\<forall>s\<in>set segs. \<not> sublist delim s"
    and "\<forall>s\<in>set (butlast segs). \<not> endsWith s ''#''"
  shows "split delim (join delim segs) = segs"
  using assms
proof (induction segs rule: induct_list012)
  case 1
  then show ?case by simp
next
  case (2 x)
  then show ?case by (simp add: split_def split_aux_no_occ)
next
  case (3 x y ys)
  have ne: "delim \<noteq> []" by (simp add: delim_def)
  have early: "\<forall>i<length x. \<not> prefix delim (drop i x @ delim @ join delim (y # ys))"
    using 3 by (intro delim_not_early) auto
  have ih: "split delim (join delim (y # ys)) = y # ys"
    using 3 by auto
  show ?case
    using split_aux_first [OF ne early, of "[]"] ih by (simp add: split_def)
qed

section \<open>Round trip of a structured finding\<close>

text \<open>
  C2, as the specification states it, fails: the segments \<open>a#\<close> and \<open>b\<close> are not blank
  and hold no delimiter, but their encoding \<open>a####b\<close> is split at the first three hash
  signs and parses to the title \<open>a\<close> and the sub-point \<open>#b\<close>.
\<close>

theorem C2_counterexample:
  "2 \<le> length [''a#'', ''b'']
   \<and> trim ''a#'' \<noteq> [] \<and> trim ''b'' \<noteq> []
   \<and> \<not> sublist delim ''a#'' \<and> \<not> sublist delim ''b''
   \<and> parseStructuredFinding (encodeSegments [''a#'', ''b''])
       = \<lparr>isStructured = True, title = ''a'', points = [''#b'']\<rparr>
   \<and> parseStructuredFinding (encodeSegments [''a#'', ''b''])
       \<noteq> \<lparr>isStructured = True, title = hd [''a#'', ''b''], points = tl [''a#'', ''b'']\<rparr>"
  by (simp add: parseStructuredFinding_def encodeSegments_def split_def delim_def trim_def
      is_ws_def Let_def sublist_code)

text \<open>
  C2, amended: for every list of at least two segments in which no segment is blank, no
  segment contains the delimiter and no segment but the last ends in a hash sign,
  encoding the segments and parsing the result gives a structured finding with the
  first segment as title and the remaining segments, in order, as sub-points.
\<close>

theorem C2_roundtrip:
  assumes "2 \<le> length segs"
    and "\<forall>s\<in>set segs. trim s \<noteq> [] \<and> \<not> sublist delim s"
    and "\<forall>s\<in>set (butlast segs). \<not> endsWith s ''#''"
  shows "parseStructuredFinding (encodeSegments segs)
           = \<lparr>isStructured = True, title = hd segs, points = tl segs\<rparr>"
proof -
  have ne: "segs \<noteq> []" using assms(1) by auto
  have keep: "filter (\<lambda>line. trim line \<noteq> []) segs = segs"
    using assms(2) by (simp add: filter_id_conv)
  have sp: "split delim (encodeSegments segs) = segs"
    using split_join_delim [OF ne _ assms(3)] assms(2) by (simp add: encodeSegments_def keep)
  have hd_ok: "trim (hd segs) \<noteq> []" using assms(2) ne by (cases segs) auto
  have tl_ok: "filter (\<lambda>p. trim p \<noteq> []) (tl segs) = tl segs"
    using assms(2) ne by (cases segs) (auto simp: filter_id_conv)
  show ?thesis
    using assms(1) hd_ok tl_ok by (simp add: parseStructuredFinding_def sp Let_def)
qed

theorem C2_witness:
  "parseStructuredFinding (encodeSegments [''Liver'', ''Normal size.'', ''No focal lesion #1''])
     = \<lparr>isStructured = True, title = ''Liver'',
        points = [''Normal size.'', ''No focal lesion #1'']\<rparr>"
  using C2_roundtrip [of "[''Liver'', ''Normal size.'', ''No focal lesion #1'']"]
  by (simp add: trim_def is_ws_def delim_def endsWith_def sublist_code suffix_to_prefix)


section \<open>Labels of blobs\<close>

lemma blobType_webm: "blobType ''audio/webm'' = ''audio/webm''"
  by (simp add: blobType_def asciiLower_def)

lemma blobType_empty: "blobType [] = []"
  by (simp add: blobType_def)

lemma blob_bytes_blobOf [simp]: "blob_bytes (blobOf bs t) = bs"
  by (simp add: blobOf_def)

lemma blob_size_blobOf [simp]: "blob_size (blobOf bs t) = length bs"
  by (simp add: blobOf_def blob_size_def)

section \<open>Continue dictation that fails\<close>

text \<open>
  When the transcription of the new audio fails, single mode leaves the session as it
  was and rejects with the exception.
\<close>

lemma continue_transcription_failure_single:
  assumes "audioBlob st = Some ab" and "processAudio cl nb (selectedModel st) = Inl e"
  shows "handleContinueDictation cl nb st
           = (Some e, st\<lparr>calls := calls st @ [ProcessAudio nb (selectedModel st)]\<rparr>)"
  using assms by (simp add: handleContinueDictation_def)

text \<open>
  Batch mode writes the registry only after the chat creation has succeeded, so a
  failure of either call leaves it as it was and shows in the continuation banner.
\<close>

lemma continue_failure_batch:
  assumes "contBatchId st = Some i" and "i \<noteq> []"
    and "find (\<lambda>b. bid b = i) (batches st) = Some b" and "bfindings b = Some fs"
    and "processAudio cl nb (bselectedModel b) = Inl e
         \<or> (\<exists>nf. processAudio cl nb (bselectedModel b) = Inr nf
               \<and> createChat cl
                    (new_Blob (audioBlobs b @ [nb]) (blob_type (hd (audioBlobs b @ [nb]))))
                    (fs @ map Some nf) (bselectedModel b) = Inl e)"
  shows "batches (handleStopContinueBatch cl (Some nb) st) = batches st
         \<and> (blob_size nb > 0 \<longrightarrow> contError (handleStopContinueBatch cl (Some nb) st)
               = Some (message_or e ''An unknown error occurred.''))"
  using assms by (auto simp: handleStopContinueBatch_def truthy_def Let_def)

text \<open>
  C1: a continue-dictation that fails must leave the finding list, the audio and the
  conversation as they were. In single mode the finding list and the audio are written
  before the chat session is created: on a session with three findings, when the
  transcription of the new audio returns one finding and the chat creation throws, the
  exception reaches the caller and the status is left alone, but the list has four
  entries and the stored audio is the merged one.
\<close>

theorem C1_chat_failure_keeps_changes:
  "(let cl = fixedClients (Inr [''new'']) (Some (JsError ''chat unavailable''))
               (Inl Thrown) (Inl Thrown);
        st = successSession [''f1'', ''f2'', ''f3''] (webm ''AAA'');
        r = handleContinueDictation cl (webm ''BB'') st
    in fst r = Some (JsError ''chat unavailable'')
       \<and> findings (snd r) = [Some ''f1'', Some ''f2'', Some ''f3'', Some ''new'']
       \<and> findings (snd r) \<noteq> findings st
       \<and> audioBlob (snd r) = Some (webm ''AAABB'')
       \<and> audioBlob (snd r) \<noteq> audioBlob st
       \<and> chatHistory (snd r) = chatHistory st
       \<and> status (snd r) = status st)"
  by (simp add: fixedClients_def successSession_def initialSingleState_def webm_def
      handleContinueDictation_def new_Blob_def blobOf_def blobType_webm getCleanMimeType_def
      startsWith_def Let_def)

section \<open>An edit at an index that is out of range\<close>

lemma handleUpdateFinding_out_of_range:
  "length (findings st) \<le> i \<Longrightarrow> handleUpdateFinding i t st = st"
  by (simp add: handleUpdateFinding_def js_get_def)

text \<open>Through the edit box, an index behind the end makes the handler throw, in both modes.\<close>

lemma save_edit_out_of_range:
  "editingIndex st = Some i \<Longrightarrow> length (findings st) \<le> i
   \<Longrightarrow> handleSaveEdit st = Inl (undefinedRead ''split'')"
  by (simp add: handleSaveEdit_def js_get_def)

lemma save_edit_out_of_range_batch:
  "editingState st = Some (k, i) \<Longrightarrow> find (\<lambda>b. bid b = k) (batches st) = Some b
   \<Longrightarrow> bfindings b = Some fs \<Longrightarrow> length fs \<le> i
   \<Longrightarrow> handleSaveEditBatch st = Inl (undefinedRead ''split'')"
  by (simp add: handleSaveEditBatch_def js_get_def)

text \<open>
  C6: an edit at an index behind the end of the finding list must leave the list as it
  is, in both modes. The update of single mode does; the update of batch mode has no
  such test and extends the list: at index 1 of a one-entry list it appends the text,
  at index 3 it leaves two empty slots in front of it.
\<close>

theorem C6_batch_edit_extends:
  "map bfindings (batches (handleUpdateFindingForBatch ''b1'' 1 ''x''
      (initialBatchState\<lparr>batches :=
         [plainBatch ''b1'' BComplete [webm ''AAA''] (Some [Some ''a''])]\<rparr>)))
     = [Some [Some ''a'', Some ''x'']]
   \<and> map bfindings (batches (handleUpdateFindingForBatch ''b1'' 3 ''x''
      (initialBatchState\<lparr>batches :=
         [plainBatch ''b1'' BComplete [webm ''AAA''] (Some [Some ''a''])]\<rparr>)))
     = [Some [Some ''a'', None, None, Some ''x'']]
   \<and> findings (handleUpdateFinding 1 ''x'' (successSession [''a''] (webm ''AAA'')))
     = [Some ''a'']"
  by (simp add: handleUpdateFindingForBatch_def handleUpdateFinding_def initialBatchState_def
      plainBatch_def js_set_def js_get_def successSession_def initialSingleState_def
      numeral_2_eq_2)

section \<open>One recording at a time\<close>

text \<open>
  While the recorder runs for the active batch \<open>a\<close>, a recording started on another
  batch hands over: \<open>a\<close> gets the captured artifact and is paused, the other batch is
  recording.
\<close>

lemma record_hands_over:
  assumes "\<not> isBusy st" and "isMainRecording st" and "activeBatchId st = Some a"
    and "a \<noteq> []" and "a \<noteq> bid b"
  shows "batches (handleRecordOrResume (Some cb) b st)
           = map (\<lambda>x. if bid x = bid b then x\<lparr>bstatus := BRecording\<rparr>
                       else if bid x = a
                       then x\<lparr>audioBlobs := audioBlobs x @ [cb], bstatus := BPaused\<rparr>
                       else x) (batches st)"
  using assms by (simp add: handleRecordOrResume_def truthy_def updateBatch_def Let_def)

lemma record_without_stop:
  assumes "\<not> isBusy st"
    and "\<not> (isMainRecording st \<and> truthy (activeBatchId st) \<and> activeBatchId st \<noteq> Some (bid b))"
  shows "batches (handleRecordOrResume captured b st)
           = updateBatch (bid b) (\<lambda>x. x\<lparr>bstatus := BRecording\<rparr>) (batches st)"
  using assms by (auto simp: handleRecordOrResume_def Let_def)

text \<open>
  If every batch that is recording is the active batch of the running recorder, then
  after a recording has been started on \<open>b\<close> only batches with the identifier of \<open>b\<close> are
  recording.
\<close>

lemma record_keeps_one_recording:
  assumes nb: "\<not> isBusy st"
    and inv: "\<forall>x\<in>set (batches st). bstatus x = BRecording
           \<longrightarrow> isMainRecording st \<and> activeBatchId st = Some (bid x) \<and> bid x \<noteq> []"
    and y: "y \<in> set (batches (handleRecordOrResume (Some cb) b st))"
    and r: "bstatus y = BRecording"
  shows "bid y = bid b"
proof (cases "isMainRecording st \<and> truthy (activeBatchId st) \<and> activeBatchId st \<noteq> Some (bid b)")
  case True
  then obtain a where a: "activeBatchId st = Some a" "a \<noteq> []" "a \<noteq> bid b"
    by (cases "activeBatchId st") (auto simp: truthy_def)
  have "isMainRecording st" using True by simp
  from record_hands_over [OF nb this a] y
  obtain x where x: "x \<in> set (batches st)"
    and yx: "y = (if bid x = bid b then x\<lparr>bstatus := BRecording\<rparr>
                  else if bid x = a
                  then x\<lparr>audioBlobs := audioBlobs x @ [cb], bstatus := BPaused\<rparr>
                  else x)"
    by auto
  show ?thesis
  proof (cases "bid x = bid b")
    case True
    then show ?thesis using yx by simp
  next
    case nb': False
    show ?thesis
    proof (cases "bid x = a")
      case True
      then show ?thesis using yx nb' r by simp
    next
      case False
      then have "y = x" using yx nb' by simp
      then have "activeBatchId st = Some (bid x)" using inv x r by blast
      then show ?thesis using a False by simp
    qed
  qed
next
  case False
  from record_without_stop [OF nb False] y
  obtain x where x: "x \<in> set (batches st)"
    and yx: "y = (if bid x = bid b then x\<lparr>bstatus := BRecording\<rparr> else x)"
    by (auto simp: updateBatch_def)
  show ?thesis
  proof (cases "bid x = bid b")
    case True
    then show ?thesis using yx by simp
  next
    case nb': False
    then have "y = x" using yx by simp
    then have "isMainRecording st \<and> activeBatchId st = Some (bid x) \<and> bid x \<noteq> []"
      using inv x r by blast
    then show ?thesis using False nb' by (auto simp: truthy_def)
  qed
qed

text \<open>
  C5: at most one batch is recording. The status of a batch is saved and restored as it
  is, while the active batch and the recorder start afresh. With two batches, start a
  recording on the first, let the saving effect run, and mount the component again: the
  first batch is restored as recording, no batch is active, and a recording started on
  the second batch stops nothing. Both batches are recording then.
\<close>

theorem C5_two_recording_after_restore:
  "(let s1 = addBatch ''id-A'' ''gemini-2.5-pro'' initialBatchState;
        s2 = addBatch ''id-B'' ''gemini-2.5-pro'' s1;
        s3 = handleRecordOrResume None (batches s2 ! 0) s2;
        store = saveBatchState blobToBase64 (batches s3) (\<lambda>k. None);
        s4 = fst (loadBatchState atob cl store initialBatchState);
        s5 = handleRecordOrResume None (batches s4 ! 1) s4
    in map bstatus (batches s3) = [BRecording, BIdle]
       \<and> map bid (batches s4) = [''id-A'', ''id-B'']
       \<and> map bstatus (batches s4) = [BRecording, BIdle]
       \<and> activeBatchId s4 = None
       \<and> map bstatus (batches s5) = [BRecording, BRecording])"
  by (simp add: addBatch_def initialBatchState_def handleRecordOrResume_def truthy_def
      updateBatch_def saveBatchState_def loadBatchState_def restoreBatch_def
      BATCH_MODE_STORAGE_KEY_def Let_def)


section \<open>A reprocess that fails\<close>

text \<open>With a stored audio of size zero nothing is cleared: the findings stay.\<close>

lemma reprocess_of_empty_audio:
  "audioBlob st = Some ab \<Longrightarrow> blob_size ab = 0
   \<Longrightarrow> handleReprocess cl st
       = st\<lparr>error := Some ''Recording or upload failed. The audio file is empty.'',
            status := Error\<rparr>"
  by (simp add: handleReprocess_def handleRecordingComplete_def)

text \<open>
  When the transcription returns and the chat creation throws, single mode ends in
  error status with the list just transcribed.
\<close>

lemma reprocess_chat_failure_single:
  "audioBlob st = Some ab \<Longrightarrow> blob_size ab > 0
   \<Longrightarrow> processAudio cl ab (selectedModel st) = Inr fs
   \<Longrightarrow> createChat cl ab (map Some fs) (selectedModel st) = Inl e
   \<Longrightarrow> status (handleReprocess cl st) = Error
       \<and> findings (handleReprocess cl st) = map Some fs"
  by (simp add: handleReprocess_def handleRecordingComplete_def Let_def)

text \<open>
  C10, as stated, fails: a reprocess can end in error with the prior findings still in
  place. A session restored from a snapshot whose audio did not decode holds an empty
  blob; its reprocess is refused by the test for empty audio, before anything is
  cleared and before any client is called.
\<close>

theorem C10_counterexample:
  "(let cl = fixedClients (Inr [''new'']) None (Inl Thrown) (Inl Thrown);
        store = (\<lambda>k. None)(SINGLE_MODE_STORAGE_KEY \<mapsto> StoredSingle
            \<lparr>sv_findings = Some [Some ''old''],
             sv_audio = Some \<lparr>sa_data = ''!!!'', sa_type = ''audio/webm''\<rparr>,
             sv_chatHistory = None, sv_selectedModel = None\<rparr>);
        st = fst (loadSingleState atob_platform cl store initialSingleState);
        r = handleReprocess cl st
    in status st = Success \<and> findings st = [Some ''old'']
       \<and> status r = Error \<and> findings r = [Some ''old'']
       \<and> error r = Some ''Recording or upload failed. The audio file is empty.''
       \<and> calls r = calls st)"
  by (simp add: loadSingleState_def base64ToBlob_def atob_platform_def b64_value_def
      fixedClients_def initialSingleState_def truthy_def handleReprocess_def
      handleRecordingComplete_def blob_size_def Let_def)

text \<open>
  C10, amended: in single mode, for a session whose stored audio is not empty, a
  reprocess whose transcription call throws clears the finding list before the call and
  ends in error status with the empty list and the message of the exception. In batch
  mode, for a batch that is found and has audio, a reprocess whose transcription call
  or chat creation throws sets the findings of that batch to null, its status to error
  and its error to the message, and leaves the other batches as they are. In neither
  case are the findings of before the reprocess put back.
\<close>

theorem C10_failed_reprocess:
  "(audioBlob st = Some ab \<and> blob_size ab > 0
      \<and> processAudio cl ab (selectedModel st) = Inl e
    \<longrightarrow> status (handleReprocess cl st) = Error
        \<and> error (handleReprocess cl st)
            = Some (message_or e ''An unknown error occurred during processing.'')
        \<and> findings (handleReprocess cl st) = [])
   \<and> (find (\<lambda>b. bid b = i) (batches bst) = Some b \<and> audioBlobs b \<noteq> []
       \<and> (processAudio cl (new_Blob (audioBlobs b) (blob_type (hd (audioBlobs b))))
             (bselectedModel b) = Inl e
           \<or> (\<exists>fs. processAudio cl (new_Blob (audioBlobs b) (blob_type (hd (audioBlobs b))))
                       (bselectedModel b) = Inr fs
                 \<and> createChat cl (new_Blob (audioBlobs b) (blob_type (hd (audioBlobs b))))
                       (map Some fs) (bselectedModel b) = Inl e))
    \<longrightarrow> batches (handleReprocessBatch cl i bst)
          = map (\<lambda>x. if bid x = i
                      then x\<lparr>bstatus := BError,
                             berror := Some (message_or e ''An unknown error occurred.''),
                             bfindings := None\<rparr>
                      else x) (batches bst))"
  by (auto simp: handleReprocess_def handleRecordingComplete_def handleReprocessBatch_def
      updateBatch_def Let_def split: sum.splits)

theorem C10_witness:
  "(let cl = fixedClients (Inl (JsError ''quota exceeded'')) None (Inl Thrown) (Inl Thrown);
        r = handleReprocess cl (successSession [''old''] (webm ''AAA''));
        rb = handleReprocessBatch cl ''b1''
               (initialBatchState\<lparr>batches :=
                  [plainBatch ''b1'' BComplete [webm ''AAA''] (Some [Some ''old''])]\<rparr>)
    in status r = Error \<and> error r = Some ''quota exceeded'' \<and> findings r = []
       \<and> map bfindings (batches rb) = [None] \<and> map bstatus (batches rb) = [BError]
       \<and> map berror (batches rb) = [Some ''quota exceeded''])"
  using C10_failed_reprocess
    [of "successSession [''old''] (webm ''AAA'')" "webm ''AAA''"
        "fixedClients (Inl (JsError ''quota exceeded'')) None (Inl Thrown) (Inl Thrown)"
        "JsError ''quota exceeded''" "''b1''"
        "initialBatchState\<lparr>batches :=
                  [plainBatch ''b1'' BComplete [webm ''AAA''] (Some [Some ''old''])]\<rparr>"
        "plainBatch ''b1'' BComplete [webm ''AAA''] (Some [Some ''old''])"]
  by (simp add: fixedClients_def successSession_def initialSingleState_def webm_def
      blob_size_def message_or_def initialBatchState_def plainBatch_def Let_def)

section \<open>Stopping a recorder that captured nothing\<close>

text \<open>
  C9: when the recorder of a per-finding append, of a per-finding modify or of a
  continue-dictation hands over no audio, or audio of size zero, the handler calls no
  client, leaves the finding list, the audio, the conversation and the status as they
  are, and records no error; this holds in single mode and in batch mode.
\<close>

theorem C9_empty_capture_is_noop:
  assumes "captured = None \<or> (\<exists>b. captured = Some b \<and> blob_size b = 0)"
  shows "(let r = handleStopDictation cl captured st in
            findings r = findings st \<and> audioBlob r = audioBlob st
            \<and> chatHistory r = chatHistory st \<and> chat r = chat st \<and> calls r = calls st
            \<and> status r = status st \<and> error r = error st
            \<and> continuationError r = continuationError st
            \<and> continuationStateError r = continuationStateError st)
       \<and> (let r = handleStopDictateEdit cl captured st in
            findings r = findings st \<and> audioBlob r = audioBlob st
            \<and> chatHistory r = chatHistory st \<and> chat r = chat st \<and> calls r = calls st
            \<and> status r = status st \<and> error r = error st
            \<and> continuationError r = continuationError st
            \<and> continuationStateError r = continuationStateError st)
       \<and> (let r = handleStopContinue cl captured st in
            findings r = findings st \<and> audioBlob r = audioBlob st
            \<and> chatHistory r = chatHistory st \<and> chat r = chat st \<and> calls r = calls st
            \<and> status r = status st \<and> error r = error st
            \<and> continuationError r = continuationError st
            \<and> continuationStateError r = None)
       \<and> (let r = handleStopDictationBatch cl captured bst in
            batches r = batches bst \<and> bcalls r = bcalls bst
            \<and> bcontinuationError r = bcontinuationError bst \<and> contError r = contError bst)
       \<and> (let r = handleStopDictateEditForBatch cl captured bst in
            batches r = batches bst \<and> bcalls r = bcalls bst
            \<and> bcontinuationError r = bcontinuationError bst \<and> contError r = contError bst)
       \<and> (let r = handleStopContinueBatch cl captured bst in
            batches r = batches bst \<and> bcalls r = bcalls bst
            \<and> bcontinuationError r = bcontinuationError bst
            \<and> contError r = (if truthy (contBatchId bst) then None else contError bst))"
proof -
  have 1: "handleStopDictation cl captured st
             = (if dictatingIndex st = None then st else st\<lparr>dictatingIndex := None\<rparr>)"
    using assms by (auto simp: handleStopDictation_def Let_def split: option.splits)
  have 2: "handleStopDictateEdit cl captured st
             = (if dictateEditingIndex st = None then st else st\<lparr>dictateEditingIndex := None\<rparr>)"
    using assms by (auto simp: handleStopDictateEdit_def Let_def split: option.splits)
  have 3: "handleStopContinue cl captured st
             = st\<lparr>continuationStatus := ContIdle, continuationStateError := None\<rparr>"
    using assms by (auto simp: handleStopContinue_def Let_def split: option.splits)
  have 4: "handleStopDictationBatch cl captured bst
             = (if dictatingState bst = None then bst else bst\<lparr>dictatingState := None\<rparr>)"
    using assms
    by (auto simp: handleStopDictationBatch_def Let_def split: option.splits prod.splits)
  have 5: "handleStopDictateEditForBatch cl captured bst
             = (if dictateEditingState bst = None then bst
                else bst\<lparr>dictateEditingState := None\<rparr>)"
    using assms
    by (auto simp: handleStopDictateEditForBatch_def Let_def split: option.splits prod.splits)
  have 6: "handleStopContinueBatch cl captured bst
             = (if truthy (contBatchId bst)
                then bst\<lparr>contBatchId := None, contStatus := ContIdle, contError := None\<rparr>
                else bst)"
    using assms by (auto simp: handleStopContinueBatch_def Let_def split: option.splits)
  show ?thesis
    unfolding 1 2 3 4 5 6 by (simp add: Let_def)
qed

theorem C9_witness:
  "(let cl = fixedClients (Inr [''x'']) None (Inr ''y'') (Inr ''z'');
        st = (successSession [''f1''] (webm ''AAA''))
               \<lparr>dictatingIndex := Some 0, dictateEditingIndex := Some 0\<rparr>;
        bst = initialBatchState
               \<lparr>batches := [plainBatch ''b1'' BComplete [webm ''AAA''] (Some [Some ''f1''])],
                dictatingState := Some (''b1'', 0), dictateEditingState := Some (''b1'', 0),
                contBatchId := Some ''b1''\<rparr>
    in findings (handleStopDictation cl (Some (webm [])) st) = [Some ''f1'']
       \<and> calls (handleStopDictation cl (Some (webm [])) st) = []
       \<and> findings (handleStopDictateEdit cl (Some (webm [])) st) = [Some ''f1'']
       \<and> calls (handleStopDictateEdit cl (Some (webm [])) st) = []
       \<and> findings (handleStopContinue cl (Some (webm [])) st) = [Some ''f1'']
       \<and> audioBlob (handleStopContinue cl (Some (webm [])) st) = Some (webm ''AAA'')
       \<and> calls (handleStopContinue cl (Some (webm [])) st) = []
       \<and> batches (handleStopDictationBatch cl (Some (webm [])) bst) = batches bst
       \<and> bcalls (handleStopDictateEditForBatch cl (Some (webm [])) bst) = []
       \<and> batches (handleStopContinueBatch cl (Some (webm [])) bst) = batches bst
       \<and> contError (handleStopContinueBatch cl (Some (webm [])) bst) = None)"
  using C9_empty_capture_is_noop
    [of "Some (webm [])" "fixedClients (Inr [''x'']) None (Inr ''y'') (Inr ''z'')"
        "(successSession [''f1''] (webm ''AAA''))
               \<lparr>dictatingIndex := Some 0, dictateEditingIndex := Some 0\<rparr>"
        "initialBatchState
               \<lparr>batches := [plainBatch ''b1'' BComplete [webm ''AAA''] (Some [Some ''f1''])],
                dictatingState := Some (''b1'', 0), dictateEditingState := Some (''b1'', 0),
                contBatchId := Some ''b1''\<rparr>"]
  by (simp add: Let_def webm_def blob_size_def successSession_def initialSingleState_def
      initialBatchState_def truthy_def)


section \<open>Appending to one finding\<close>

lemma trim_blank: "trim e = [] \<longleftrightarrow> (\<forall>c\<in>set e. is_ws c)"
proof
  assume "trim e = []"
  then have all: "\<forall>x\<in>set (dropWhile is_ws e). is_ws x"
    by (simp add: trim_def dropWhile_eq_Nil_conv)
  have "dropWhile is_ws e = []"
  proof (rule ccontr)
    assume ne: "dropWhile is_ws e \<noteq> []"
    then have "\<not> is_ws (hd (dropWhile is_ws e))" by (rule hd_dropWhile)
    moreover have "hd (dropWhile is_ws e) \<in> set (dropWhile is_ws e)" using ne by simp
    ultimately show False using all by blast
  qed
  then show "\<forall>c\<in>set e. is_ws c" by (simp add: dropWhile_eq_Nil_conv)
next
  assume "\<forall>c\<in>set e. is_ws c"
  then show "trim e = []" by (auto simp: trim_def dest: set_dropWhileD)
qed

lemma endsWith_space: "endsWith e '' '' \<longleftrightarrow> e \<noteq> [] \<and> last e = CHR '' ''"
proof
  assume "endsWith e '' ''"
  then obtain p where "e = p @ '' ''" by (auto simp: endsWith_def suffix_def)
  then show "e \<noteq> [] \<and> last e = CHR '' ''" by simp
next
  assume "e \<noteq> [] \<and> last e = CHR '' ''"
  then have "e = butlast e @ '' ''" by (metis append_butlast_last_id)
  then show "endsWith e '' ''" unfolding endsWith_def by (metis suffixI)
qed

lemma separator_cases:
  "separator e = (if (\<forall>c\<in>set e. is_ws c) \<or> (e \<noteq> [] \<and> last e = CHR '' '') then [] else '' '')"
  by (simp add: separator_def trim_blank endsWith_space)

lemma split_aux_nonempty: "split_aux sep cur s \<noteq> []"
  by (induction sep cur s rule: split_aux.induct) auto

lemma split_aux_occ:
  "sublist sep s \<Longrightarrow> sep \<noteq> [] \<Longrightarrow> 2 \<le> length (split_aux sep cur s)"
proof (induction s arbitrary: cur)
  case Nil
  then show ?case by simp
next
  case (Cons c cs)
  show ?case
  proof (cases "prefix sep (c # cs)")
    case True
    have "1 \<le> length (split_aux sep [] (drop (length sep - 1) cs))"
      using split_aux_nonempty [of sep "[]" "drop (length sep - 1) cs"]
      by (cases "split_aux sep [] (drop (length sep - 1) cs)") auto
    then show ?thesis using True by simp
  next
    case False
    then have "sublist sep cs" using Cons.prems(1) by (simp add: sublist_Cons_right)
    then show ?thesis using False Cons.IH Cons.prems(2) by simp
  qed
qed

lemma length_split: "sep \<noteq> [] \<Longrightarrow> 1 < length (split sep s) \<longleftrightarrow> sublist sep s"
  using split_aux_occ [of sep s "[]"] split_aux_no_occ [of sep s "[]"]
  by (cases "sublist sep s") (auto simp: split_def)

lemma prefix_long: "length sep \<le> length a \<Longrightarrow> prefix sep (a @ t) = prefix sep a"
  by (auto simp: prefix_append)

lemma sublist_length: "sublist sep cs \<Longrightarrow> length sep \<le> length cs"
  by (auto simp: sublist_def)

lemma split_aux_hd_append:
  "sublist sep e \<Longrightarrow> sep \<noteq> []
   \<Longrightarrow> hd (split_aux sep cur (e @ t)) = hd (split_aux sep cur e)"
proof (induction e arbitrary: cur)
  case Nil
  then show ?case by simp
next
  case (Cons c cs)
  show ?case
  proof (cases "prefix sep (c # cs)")
    case True
    then have "prefix sep (c # cs @ t)" by (metis append_Cons prefix_prefix)
    then show ?thesis using True by simp
  next
    case False
    then have sub: "sublist sep cs" using Cons.prems(1) by (simp add: sublist_Cons_right)
    then have "length sep \<le> length (c # cs)" using sublist_length by fastforce
    then have "prefix sep ((c # cs) @ t) = prefix sep (c # cs)" by (rule prefix_long)
    then have "\<not> prefix sep (c # cs @ t)" using False by simp
    then show ?thesis using False Cons.IH [OF sub Cons.prems(2)] by simp
  qed
qed

lemma delim_crossing:
  assumes "sublist delim (ys @ zs)" and "\<not> sublist delim ys" and "\<not> sublist delim zs"
  shows "ys \<noteq> [] \<and> last ys = CHR ''#''"
proof -
  from assms obtain xs1 xs2 where x: "delim = xs1 @ xs2" "suffix xs1 ys" "prefix xs2 zs"
    by (auto simp: sublist_append)
  have "xs2 \<noteq> []" using x assms(2) by (auto dest: suffix_imp_sublist)
  have ne1: "xs1 \<noteq> []" using x assms(3) by (auto dest: prefix_imp_sublist)
  have "set delim = {CHR ''#''}" by (simp add: delim_def)
  moreover have "set xs1 \<subseteq> set delim" by (metis x(1) set_append Un_upper1)
  ultimately have "set xs1 \<subseteq> {CHR ''#''}" by simp
  then have l1: "last xs1 = CHR ''#''" using ne1 last_in_set by blast
  obtain p where "ys = p @ xs1" using x(2) by (auto simp: suffix_def)
  then show ?thesis using ne1 l1 by simp
qed

lemma ws_not_hash: "is_ws c \<Longrightarrow> c \<noteq> CHR ''#''"
  by (auto simp: is_ws_def)

lemma append_keeps_unstructured:
  assumes u: "\<not> isStructured (parseStructuredFinding e)" and n: "\<not> sublist delim (trim n)"
  shows "\<not> isStructured (parseStructuredFinding (updatedText e n))"
proof (cases "sublist delim e")
  case True
  have dne: "delim \<noteq> []" by (simp add: delim_def)
  have "1 < length (split delim e)" using True length_split [OF dne] by simp
  then have blank: "trim (hd (split delim e)) = []"
    using u by (auto simp: parseStructuredFinding_def Let_def split: if_splits)
  have "hd (split delim (updatedText e n)) = hd (split delim e)"
    unfolding updatedText_def split_def by (rule split_aux_hd_append [OF True dne])
  then show ?thesis using blank by (simp add: parseStructuredFinding_def Let_def)
next
  case False
  have dne: "delim \<noteq> []" by (simp add: delim_def)
  have "\<not> sublist delim (updatedText e n)"
  proof
    assume s: "sublist delim (updatedText e n)"
    show False
    proof (cases "separator e = []")
      case True
      then have s': "sublist delim (e @ trim n)" using s by (simp add: updatedText_def)
      have "e \<noteq> [] \<and> last e = CHR ''#''" using delim_crossing [OF s' False n] .
      moreover have "(\<forall>c\<in>set e. is_ws c) \<or> (e \<noteq> [] \<and> last e = CHR '' '')"
        using True by (simp add: separator_cases split: if_splits)
      ultimately show False using ws_not_hash [of "last e"] last_in_set [of e] by auto
    next
      case F: False
      then have sp: "separator e = '' ''" by (simp add: separator_def split: if_splits)
      then have s': "sublist delim ((e @ '' '') @ trim n)" using s by (simp add: updatedText_def)
      have ns: "\<not> sublist delim (e @ '' '')"
      proof
        assume a: "sublist delim (e @ '' '')"
        have "\<not> sublist delim '' ''" by (simp add: delim_def sublist_code)
        from delim_crossing [OF a False this] have le: "e \<noteq> [] \<and> last e = CHR ''#''" .
        from a obtain p q where pq: "e @ '' '' = p @ delim @ q" by (auto simp: sublist_def)
        show False
        proof (cases q rule: rev_cases)
          case Nil
          then have "last (e @ '' '') = last (p @ delim)" using pq by simp
          then show False by (simp add: delim_def)
        next
          case (snoc q' c)
          then have "e = p @ delim @ q'" using pq by simp
          then show False using False by (auto simp: sublist_def)
        qed
      qed
      from delim_crossing [OF s' ns n] show False by simp
    qed
  qed
  then have "length (split delim (updatedText e n)) = 1"
    by (simp add: split_def split_aux_no_occ)
  then show ?thesis by (simp add: parseStructuredFinding_def Let_def)
qed

text \<open>
  C3, as the specification states it, fails twice. The separator is left out only when
  the existing text is blank or ends in a space character: after \<open>a\<close> and a line feed,
  which is whitespace, a space is still inserted. And the result of appending to an
  unstructured finding is structured when the continuation holds the delimiter:
  appending \<open>b###c\<close> to \<open>a\<close> gives \<open>a b###c\<close>.
\<close>

theorem C3_counterexample:
  "is_ws (last (''a'' @ nl))
   \<and> updatedText (''a'' @ nl) ''b'' = ''a'' @ nl @ '' b''
   \<and> updatedText (''a'' @ nl) ''b'' \<noteq> (''a'' @ nl) @ trim ''b''
   \<and> \<not> isStructured (parseStructuredFinding ''a'')
   \<and> isStructured (parseStructuredFinding (updatedText ''a'' ''b###c''))
   \<and> findings (handleStopDictation
         (fixedClients (Inl Thrown) None (Inr ''b###c'') (Inl Thrown)) (Some (webm ''AAA''))
         ((successSession [''a''] (webm ''ZZ''))\<lparr>dictatingIndex := Some 0\<rparr>))
       = [Some ''a b###c'']"
  by (simp add: updatedText_def separator_def trim_def is_ws_def nl_def endsWith_def
      suffix_to_prefix parseStructuredFinding_def split_def delim_def Let_def
      handleStopDictation_def handleUpdateFinding_def fixedClients_def successSession_def
      initialSingleState_def webm_def blob_size_def js_get_def)

text \<open>
  C3, amended: for every existing finding text and every continuation text, the
  per-finding append writes back the existing text, followed by a single space unless
  the existing text is blank (empty or whitespace only) or ends in a space character,
  followed by the trimmed continuation text, in single mode and in batch mode; the
  existing text is a prefix of the result; and the result of appending to an
  unstructured finding is unstructured whenever the trimmed continuation text does not
  contain the delimiter.
\<close>

theorem C3_append:
  "updatedText e n
     = e @ (if (\<forall>c\<in>set e. is_ws c) \<or> (e \<noteq> [] \<and> last e = CHR '' '') then [] else '' '')
         @ trim n
   \<and> prefix e (updatedText e n)
   \<and> (\<not> isStructured (parseStructuredFinding e) \<and> \<not> sublist delim (trim n)
        \<longrightarrow> \<not> isStructured (parseStructuredFinding (updatedText e n)))
   \<and> (dictatingIndex st = Some i \<and> js_get (findings st) i = Some e \<and> blob_size ab > 0
        \<and> continueAudioDictation cl (Some e) ab = Inr n
        \<longrightarrow> findings (handleStopDictation cl (Some ab) st)
              = (findings st)[i := Some (updatedText e n)])
   \<and> (dictatingState bst = Some (k, i) \<and> find (\<lambda>b. bid b = k) (batches bst) = Some b
        \<and> bfindings b = Some fs \<and> js_get fs i = Some e \<and> blob_size ab > 0
        \<and> continueAudioDictation cl (Some e) ab = Inr n
        \<longrightarrow> batches (handleStopDictationBatch cl (Some ab) bst)
              = map (\<lambda>x. case bfindings x of
                            None \<Rightarrow> x
                          | Some fs' \<Rightarrow>
                              if bid x = k
                              then x\<lparr>bfindings := Some (js_set fs' i (updatedText e n))\<rparr>
                              else x) (batches bst))"
proof -
  have 1: "updatedText e n
     = e @ (if (\<forall>c\<in>set e. is_ws c) \<or> (e \<noteq> [] \<and> last e = CHR '' '') then [] else '' '')
         @ trim n"
    by (simp only: updatedText_def separator_cases)
  have 2: "prefix e (updatedText e n)" by (simp add: updatedText_def)
  have 3: "\<not> isStructured (parseStructuredFinding e) \<and> \<not> sublist delim (trim n)
        \<longrightarrow> \<not> isStructured (parseStructuredFinding (updatedText e n))"
    using append_keeps_unstructured by blast
  have 4: "dictatingIndex st = Some i \<and> js_get (findings st) i = Some e \<and> blob_size ab > 0
        \<and> continueAudioDictation cl (Some e) ab = Inr n
        \<longrightarrow> findings (handleStopDictation cl (Some ab) st)
              = (findings st)[i := Some (updatedText e n)]"
    by (simp add: handleStopDictation_def handleUpdateFinding_def Let_def)
  have 5: "dictatingState bst = Some (k, i) \<and> find (\<lambda>b. bid b = k) (batches bst) = Some b
        \<and> bfindings b = Some fs \<and> js_get fs i = Some e \<and> blob_size ab > 0
        \<and> continueAudioDictation cl (Some e) ab = Inr n
        \<longrightarrow> batches (handleStopDictationBatch cl (Some ab) bst)
              = map (\<lambda>x. case bfindings x of
                            None \<Rightarrow> x
                          | Some fs' \<Rightarrow>
                              if bid x = k
                              then x\<lparr>bfindings := Some (js_set fs' i (updatedText e n))\<rparr>
                              else x) (batches bst)"
    by (simp add: handleStopDictationBatch_def handleUpdateFindingForBatch_def Let_def)
  show ?thesis using 1 2 3 4 5 by blast
qed

theorem C3_witness:
  "(let cl = fixedClients (Inl Thrown) None (Inr ''No effusion.'') (Inl Thrown);
        st = (successSession [''Lungs are clear.''] (webm ''ZZ''))\<lparr>dictatingIndex := Some 0\<rparr>;
        bst = initialBatchState
               \<lparr>batches := [plainBatch ''b1'' BComplete [webm ''ZZ'']
                              (Some [Some ''Lungs are clear.''])],
                dictatingState := Some (''b1'', 0)\<rparr>
    in updatedText ''Lungs are clear.'' ''No effusion.'' = ''Lungs are clear. No effusion.''
       \<and> \<not> isStructured (parseStructuredFinding (updatedText ''Lungs are clear.'' ''No effusion.''))
       \<and> findings (handleStopDictation cl (Some (webm ''AAA'')) st)
           = [Some ''Lungs are clear. No effusion.'']
       \<and> map bfindings (batches (handleStopDictationBatch cl (Some (webm ''AAA'')) bst))
           = [Some [Some ''Lungs are clear. No effusion.'']])"
  using C3_append
    [where e = "''Lungs are clear.''" and n = "''No effusion.''"
       and st = "(successSession [''Lungs are clear.''] (webm ''ZZ''))\<lparr>dictatingIndex := Some 0\<rparr>"
       and i = 0 and ab = "webm ''AAA''"
       and cl = "fixedClients (Inl Thrown) None (Inr ''No effusion.'') (Inl Thrown)"
       and bst = "initialBatchState
               \<lparr>batches := [plainBatch ''b1'' BComplete [webm ''ZZ'']
                              (Some [Some ''Lungs are clear.''])],
                dictatingState := Some (''b1'', 0)\<rparr>"
       and k = "''b1''"
       and b = "plainBatch ''b1'' BComplete [webm ''ZZ''] (Some [Some ''Lungs are clear.''])"
       and fs = "[Some ''Lungs are clear.'']"]
  by (simp add: Let_def is_ws_def trim_def fixedClients_def successSession_def
      initialSingleState_def initialBatchState_def plainBatch_def webm_def blob_size_def
      js_get_def js_set_def parseStructuredFinding_def split_def delim_def sublist_code)


section \<open>A snapshot whose audio does not decode\<close>

lemma unparsable_snapshot_is_removed:
  "store SINGLE_MODE_STORAGE_KEY = Some Unparsable
   \<Longrightarrow> loadSingleState atob cl store st = (st, store(SINGLE_MODE_STORAGE_KEY := None))"
  by (simp add: loadSingleState_def)

lemma batch_snapshot_is_kept:
  "store BATCH_MODE_STORAGE_KEY = Some (StoredBatches l)
   \<Longrightarrow> snd (loadBatchState atob cl store bst) = store"
  by (simp add: loadBatchState_def Let_def)

text \<open>
  C7, as the specification states it, fails: a snapshot whose audio is the malformed
  base64 text \<open>!!!\<close> is not discarded. The decoder throws, \<^verbatim>\<open>base64ToBlob\<close> catches the
  exception itself, and the loading effect goes on with an empty blob: the session is
  restored in success status and the storage key is still there.
\<close>

theorem C7_counterexample:
  "(let store = (\<lambda>k. None)(SINGLE_MODE_STORAGE_KEY \<mapsto> StoredSingle
            \<lparr>sv_findings = Some [Some ''Normal study.''],
             sv_audio = Some \<lparr>sa_data = ''!!!'', sa_type = ''audio/webm''\<rparr>,
             sv_chatHistory = None, sv_selectedModel = None\<rparr>);
        r = loadSingleState atob_platform
              (fixedClients (Inl Thrown) None (Inl Thrown) (Inl Thrown)) store initialSingleState
    in atob_platform ''!!!'' = Inl (JsError ''The string to be decoded is not correctly encoded.'')
       \<and> snd r SINGLE_MODE_STORAGE_KEY = store SINGLE_MODE_STORAGE_KEY
       \<and> snd r SINGLE_MODE_STORAGE_KEY \<noteq> None
       \<and> status (fst r) = Success
       \<and> findings (fst r) = [Some ''Normal study.'']
       \<and> audioBlob (fst r) = Some (webm []))"
  by (simp add: loadSingleState_def base64ToBlob_def atob_platform_def b64_value_def
      fixedClients_def initialSingleState_def webm_def truthy_def Let_def blobOf_def
      blobType_webm)

text \<open>
  C7, amended: for every stored single-mode snapshot with a non-empty finding list whose
  audio payload the decoder rejects, \<^verbatim>\<open>base64ToBlob\<close> catches the failure and returns an
  empty blob labelled with the stored type as the \<^verbatim>\<open>Blob\<close> constructor normalises it, and
  the loading effect restores the findings with that empty audio in success status and
  leaves the storage as it is.
\<close>

theorem C7_malformed_audio_is_loaded:
  assumes "store SINGLE_MODE_STORAGE_KEY = Some (StoredSingle sv)"
    and "sv_findings sv = Some fs" and "fs \<noteq> []" and "sv_audio sv = Some au"
    and "atob (sa_data au) = Inl e"
  shows "base64ToBlob atob (sa_data au) (sa_type au)
           = \<lparr>blob_bytes = [], blob_type = blobType (sa_type au)\<rparr>
       \<and> snd (loadSingleState atob cl store st) = store
       \<and> status (fst (loadSingleState atob cl store st)) = Success
       \<and> findings (fst (loadSingleState atob cl store st)) = fs
       \<and> audioBlob (fst (loadSingleState atob cl store st))
            = Some \<lparr>blob_bytes = [], blob_type = blobType (sa_type au)\<rparr>"
  using assms
  by (auto simp: loadSingleState_def base64ToBlob_def blobOf_def Let_def split: sum.splits)

theorem C7_witness:
  "(let store = (\<lambda>k. None)(SINGLE_MODE_STORAGE_KEY \<mapsto> StoredSingle
            \<lparr>sv_findings = Some [Some ''Lungs are clear.''],
             sv_audio = Some \<lparr>sa_data = ''a'', sa_type = ''AUDIO/OGG''\<rparr>,
             sv_chatHistory = Some [], sv_selectedModel = Some ''gemini-2.5-flash''\<rparr>);
        r = loadSingleState atob_platform
              (fixedClients (Inl Thrown) None (Inl Thrown) (Inl Thrown)) store initialSingleState
    in snd r = store \<and> status (fst r) = Success
       \<and> findings (fst r) = [Some ''Lungs are clear.'']
       \<and> audioBlob (fst r) = Some \<lparr>blob_bytes = [], blob_type = ''audio/ogg''\<rparr>)"
  using C7_malformed_audio_is_loaded
    [of "(\<lambda>k. None)(SINGLE_MODE_STORAGE_KEY \<mapsto> StoredSingle
            \<lparr>sv_findings = Some [Some ''Lungs are clear.''],
             sv_audio = Some \<lparr>sa_data = ''a'', sa_type = ''AUDIO/OGG''\<rparr>,
             sv_chatHistory = Some [], sv_selectedModel = Some ''gemini-2.5-flash''\<rparr>)"
        "\<lparr>sv_findings = Some [Some ''Lungs are clear.''],
             sv_audio = Some \<lparr>sa_data = ''a'', sa_type = ''AUDIO/OGG''\<rparr>,
             sv_chatHistory = Some [], sv_selectedModel = Some ''gemini-2.5-flash''\<rparr>"
        "[Some ''Lungs are clear.'']"
        "\<lparr>sa_data = ''a'', sa_type = ''AUDIO/OGG''\<rparr>"
        atob_platform
        "JsError ''The string to be decoded is not correctly encoded.''"
        "fixedClients (Inl Thrown) None (Inl Thrown) (Inl Thrown)" initialSingleState]
  by (simp add: atob_platform_def b64_value_def Let_def blobType_def asciiLower_def)


section \<open>Copying a selection\<close>










section \<open>Processing all batches\<close>

lemma bid_outcomeUpdate [simp]: "bid (outcomeUpdate cl model b x) = bid x"
  by (simp add: outcomeUpdate_def completeBatch_def Let_def split: sum.splits)

lemma outcomeUpdate_marked [simp]:
  "outcomeUpdate cl model b (x\<lparr>bstatus := BProcessing\<rparr>) = outcomeUpdate cl model b x"
  by (simp add: outcomeUpdate_def completeBatch_def Let_def split: sum.splits)














end
